theory Spec2Isabelle
  imports Main "HOL-Library.Word" "HOL-Library.Sublist"
begin

section \<open>JavaScript values\<close>

text \<open>
  A JavaScript string is a sequence of UTF-16 code units; \<open>length\<close>, \<open>trim\<close>,
  \<open>startsWith\<close> and the regular expression \<open>\D\<close> all work on code units.
  \<open>utf16\<close> gives the code units of an ASCII literal.
\<close>

type_synonym js_string = "16 word list"

definition utf16 :: "string \<Rightarrow> js_string" where
  "utf16 s = map of_char s"

text \<open>
  The values \<open>JSON.parse\<close> and \<open>request.json()\<close> produce, with \<open>undefined\<close>
  added for the result of reading a property that is not there. The handler observes a
  number only through its truthiness and its rendering in a template literal, so a number
  is carried by the text \<open>String(n)\<close> gives it (\<open>0\<close> and \<open>-0\<close> both render as
  \<open>0\<close>; \<open>JSON.parse\<close> yields no \<open>NaN\<close>). An object is the list of its own
  properties; a lookup takes the first entry of a name.
\<close>

datatype json =
    JUndefined
  | JNull
  | JBool bool
  | JNum js_string
  | JStr js_string
  | JArr "json list"
  | JObj "(js_string \<times> json) list"

datatype js_error = TypeError | SyntaxError | NetworkError | InvalidCharacterError

fun nullish :: "json \<Rightarrow> bool" where
  "nullish JUndefined = True"
| "nullish JNull = True"
| "nullish _ = False"

text \<open>ToBoolean.\<close>

fun truthy :: "json \<Rightarrow> bool" where
  "truthy JUndefined = False"
| "truthy JNull = False"
| "truthy (JBool b) = b"
| "truthy (JNum n) = (n \<noteq> utf16 ''0'')"
| "truthy (JStr s) = (s \<noteq> [])"
| "truthy (JArr _) = True"
| "truthy (JObj _) = True"

text \<open>
  \<open>v.name\<close> for the property names this program reads (none of them is a property of
  a string, a number, a boolean or an array, nor of \<open>Object.prototype\<close>). On
  \<open>null\<close> and \<open>undefined\<close> the read raises a TypeError (\<open>get_prop\<close>); with
  optional chaining, \<open>v?.name\<close>, it gives \<open>undefined\<close> (\<open>opt_prop\<close>).
\<close>

fun read_prop :: "json \<Rightarrow> js_string \<Rightarrow> json" where
  "read_prop (JObj kvs) name = (case map_of kvs name of None \<Rightarrow> JUndefined | Some v \<Rightarrow> v)"
| "read_prop _ name = JUndefined"

definition get_prop :: "json \<Rightarrow> js_string \<Rightarrow> js_error + json" where
  "get_prop v name = (if nullish v then Inl TypeError else Inr (read_prop v name))"

definition opt_prop :: "json \<Rightarrow> js_string \<Rightarrow> json" where
  "opt_prop v name = (if nullish v then JUndefined else read_prop v name)"

text \<open>\<open>a || b\<close> on values.\<close>

definition js_or :: "json \<Rightarrow> json \<Rightarrow> json" where
  "js_or a b = (if truthy a then a else b)"

text \<open>
  ToString, as a template literal \<open>`${v}`\<close> and the conversion of an argument to a
  string apply it. An array joins the renderings of its elements with commas,
  \<open>null\<close> and \<open>undefined\<close> elements rendering as the empty string. An object
  renders as \<open>[object Object]\<close>, through \<open>Object.prototype.toString\<close>, unless it
  has a property \<open>toString\<close> of its own: a parsed value is never a function, neither
  it nor \<open>valueOf\<close> yields a primitive, and the conversion raises a TypeError (also
  when the object is an element of an array being joined).
\<close>

fun join_comma :: "js_string list \<Rightarrow> js_string" where
  "join_comma [] = []"
| "join_comma [s] = s"
| "join_comma (s # t # ss) = s @ utf16 '','' @ join_comma (t # ss)"

fun to_string :: "json \<Rightarrow> js_error + js_string"
  and to_strings :: "json list \<Rightarrow> js_error + js_string list" where
  "to_string JUndefined = Inr (utf16 ''undefined'')"
| "to_string JNull = Inr (utf16 ''null'')"
| "to_string (JBool b) = Inr (if b then utf16 ''true'' else utf16 ''false'')"
| "to_string (JNum n) = Inr n"
| "to_string (JStr s) = Inr s"
| "to_string (JArr xs) =
     (case to_strings xs of
        Inl e \<Rightarrow> Inl e
      | Inr ss \<Rightarrow> Inr (join_comma ss))"
| "to_string (JObj kvs) =
     (case map_of kvs (utf16 ''toString'') of
        None \<Rightarrow> Inr (utf16 ''[object Object]'')
      | Some _ \<Rightarrow> Inl TypeError)"
| "to_strings [] = Inr []"
| "to_strings (x # xs) =
     (case (if nullish x then Inr [] else to_string x) of
        Inl e \<Rightarrow> Inl e
      | Inr s \<Rightarrow>
          (case to_strings xs of
             Inl e \<Rightarrow> Inl e
           | Inr ss \<Rightarrow> Inr (s # ss)))"

text \<open>
  ToPrimitive, as \<open>new Date(v)\<close> applies it: an array or an object becomes the string
  it renders as (\<open>valueOf\<close> returns the object itself, so \<open>toString\<close> decides), and
  raises where that rendering raises; every other value is a primitive already.
\<close>

definition to_primitive :: "json \<Rightarrow> js_error + json" where
  "to_primitive v =
     (case v of
        JArr _ \<Rightarrow> (case to_string v of Inl e \<Rightarrow> Inl e | Inr s \<Rightarrow> Inr (JStr s))
      | JObj _ \<Rightarrow> (case to_string v of Inl e \<Rightarrow> Inl e | Inr s \<Rightarrow> Inr (JStr s))
      | _ \<Rightarrow> Inr v)"

section \<open>Phone numbers\<close>

definition E164_MIN_DIGITS :: nat where
  "E164_MIN_DIGITS = 8"

definition E164_MAX_DIGITS :: nat where
  "E164_MAX_DIGITS = 15"

definition ROUTE_KEY_PREFIX :: js_string where
  "ROUTE_KEY_PREFIX = utf16 ''route:''"

text \<open>
  The code units \<open>String.prototype.trim\<close> removes: WhiteSpace and LineTerminator of
  ECMAScript (tab, LF, VT, FF, CR, space, NBSP, U+1680, U+2000 to U+200A, U+2028, U+2029,
  U+202F, U+205F, U+3000, U+FEFF).
\<close>

definition is_js_space :: "16 word \<Rightarrow> bool" where
  "is_js_space c =
     (c \<in> {0x09, 0x0A, 0x0B, 0x0C, 0x0D, 0x20, 0xA0, 0x1680, 0x2028, 0x2029,
            0x202F, 0x205F, 0x3000, 0xFEFF}
      \<or> (0x2000 \<le> c \<and> c \<le> 0x200A))"

definition trim :: "js_string \<Rightarrow> js_string" where
  "trim s = rev (dropWhile is_js_space (rev (dropWhile is_js_space s)))"

text \<open>\<open>\d\<close> is \<open>[0-9]\<close>; \<open>replace(/\D/g, "")\<close> keeps exactly those code units.\<close>

definition is_digit :: "16 word \<Rightarrow> bool" where
  "is_digit c = (0x30 \<le> c \<and> c \<le> 0x39)"

definition normalizePhoneNumber :: "json \<Rightarrow> js_string option" where
  "normalizePhoneNumber phoneNumber =
     (case phoneNumber of
        JStr s \<Rightarrow>
          (let trimmed = trim s in
           if \<not> prefix (utf16 ''+'') trimmed then None
           else
             (let digitsOnly = filter is_digit trimmed in
              if length digitsOnly < E164_MIN_DIGITS \<or> E164_MAX_DIGITS < length digitsOnly
              then None
              else Some (utf16 ''+'' @ digitsOnly)))
      | _ \<Rightarrow> None)"

text \<open>
  \<open>getToPhone\<close>: \<open>(Array.isArray(to) && to[0]?.phone_number) || to?.phone_number || to\<close>.
  Reading \<open>messagePayload.to\<close> raises on a \<open>null\<close> or \<open>undefined\<close> payload.
\<close>

definition first_recipient_phone :: "json \<Rightarrow> json" where
  "first_recipient_phone to =
     (case to of
        JArr xs \<Rightarrow> (case xs of [] \<Rightarrow> JUndefined | x # _ \<Rightarrow> opt_prop x (utf16 ''phone_number''))
      | _ \<Rightarrow> JBool False)"

definition getToPhone :: "json \<Rightarrow> js_error + js_string option" where
  "getToPhone messagePayload =
     (case get_prop messagePayload (utf16 ''to'') of
        Inl e \<Rightarrow> Inl e
      | Inr to \<Rightarrow>
          Inr (normalizePhoneNumber
                 (js_or (js_or (first_recipient_phone to) (opt_prop to (utf16 ''phone_number''))) to)))"

definition getFromPhone :: "json \<Rightarrow> js_string" where
  "getFromPhone messagePayload =
     (case opt_prop (opt_prop messagePayload (utf16 ''from'')) (utf16 ''phone_number'') of
        JStr fromPhone \<Rightarrow> if 0 < length fromPhone then fromPhone else utf16 ''(Unknown)''
      | _ \<Rightarrow> utf16 ''(Unknown)'')"

definition getFromPhoneForReply :: "json \<Rightarrow> js_string option" where
  "getFromPhoneForReply messagePayload =
     normalizePhoneNumber (opt_prop (opt_prop messagePayload (utf16 ''from'')) (utf16 ''phone_number''))"

section \<open>Environment, runtime and network\<close>

text \<open>
  The bindings of the worker: four variables, each a string or not set, and the key-value
  namespace, a table from keys to stored texts (\<open>get\<close> gives \<open>null\<close> for a key that
  is not there).
\<close>

record env =
  FROM_EMAIL :: "js_string option"
  MAILGUN_DOMAIN :: "js_string option"
  MAILGUN_API_KEY :: "js_string option"
  TELNYX_API_KEY :: "js_string option"
  NUMBER_TO_EMAIL :: "js_string \<Rightarrow> js_string option"

text \<open>A variable in a template literal or a concatenation: \<open>undefined\<close> when not set.\<close>

definition env_text :: "js_string option \<Rightarrow> js_string" where
  "env_text v = (case v of None \<Rightarrow> utf16 ''undefined'' | Some s \<Rightarrow> s)"

text \<open>\<open>!v\<close> for a variable: not set, or the empty string.\<close>

definition absent_or_empty :: "js_string option \<Rightarrow> bool" where
  "absent_or_empty v = (case v of None \<Rightarrow> True | Some s \<Rightarrow> s = [])"

text \<open>
  What the handler takes from the JavaScript runtime and this repository does not define:
  \<open>JSON.parse\<close> (also behind \<open>request.json()\<close>), \<open>None\<close> where it raises a
  SyntaxError, and \<open>new Date(v).toLocaleString("en-US", {timeZone: "America/Chicago",
  timeZoneName: "short"})\<close> on a primitive \<open>v\<close>, which returns a text for every
  primitive (\<open>Invalid Date\<close> where the value is no date).
\<close>

record runtime =
  JSON_parse :: "js_string \<Rightarrow> json option"
  toLocaleString :: "json \<Rightarrow> js_string"

record request =
  req_method :: js_string
  req_body :: js_string

record response =
  res_body :: js_string
  res_status :: nat

text \<open>
  An outbound call is recorded as the handler hands it to \<open>fetch\<close>: the Mailgun call by
  its URL, its Authorization header and the fields of the form, each the string that
  \<open>new URLSearchParams(mailgunData)\<close> converts the field of \<open>mailgunData\<close> to; the
  Telnyx call (always to \<open>https://api.telnyx.com/v2/messages\<close>) by its Authorization
  header and the object given to \<open>JSON.stringify\<close> (which raises on no parsed value); a
  media download by the value of \<open>item.url\<close>.
\<close>

record mailgun_data =
  mg_from :: js_string
  mg_to :: js_string
  mg_subject :: js_string
  mg_html :: js_string
  mg_text :: js_string

record telnyx_body =
  tx_from :: js_string
  tx_to :: js_string
  tx_text :: json

datatype call =
    MediaFetch json
  | MailgunPost js_string js_string mailgun_data
  | TelnyxPost js_string telnyx_body

text \<open>
  What a call comes back with: the promise rejects, or a response arrives with its
  \<open>ok\<close> flag and a body (\<open>None\<close> when reading the body fails). The network answers
  the \<open>n\<close>-th call of a request as it likes.
\<close>

datatype fetch_result = Rejected | Responded bool "8 word list option"

type_synonym network = "nat \<Rightarrow> call \<Rightarrow> fetch_result"

definition do_fetch :: "network \<Rightarrow> call \<Rightarrow> call list \<Rightarrow> fetch_result \<times> call list" where
  "do_fetch net c tr = (net (length tr) c, tr @ [c])"

text \<open>
  \<open>btoa\<close>: an InvalidCharacterError on a code unit above 255, else the Base64 text of
  the bytes.
\<close>

definition b64_char :: "nat \<Rightarrow> 16 word" where
  "b64_char n =
     utf16 ''ABCDEFGHIJKLMNOPQRSTUVWXYZabcdefghijklmnopqrstuvwxyz0123456789+/'' ! n"

fun base64 :: "nat list \<Rightarrow> js_string" where
  "base64 [] = []"
| "base64 [a] = [b64_char (a div 4), b64_char ((a mod 4) * 16), 0x3D, 0x3D]"
| "base64 [a, b] =
     [b64_char (a div 4), b64_char ((a mod 4) * 16 + b div 16), b64_char ((b mod 16) * 4), 0x3D]"
| "base64 (a # b # c # rest) =
     [b64_char (a div 4), b64_char ((a mod 4) * 16 + b div 16),
      b64_char ((b mod 16) * 4 + c div 64), b64_char (c mod 64)] @ base64 rest"

definition btoa :: "js_string \<Rightarrow> js_error + js_string" where
  "btoa s =
     (if list_all (\<lambda>c. c \<le> 0xFF) s then Inr (base64 (map unat s))
      else Inl InvalidCharacterError)"

text \<open>
  \<open>new Uint8Array(arrayBuffer).reduce((data, byte) => data + String.fromCharCode(byte), "")\<close>
\<close>

definition binary_string :: "8 word list \<Rightarrow> js_string" where
  "binary_string bytes = map ucast bytes"

section \<open>Building and sending the email\<close>

text \<open>
  The two templates. The sender, the date and the media markup are strings when the
  handler calls them; the message text is whatever value the payload carries, and
  \<open>${text}\<close> raises where its conversion to a string does.
\<close>

definition buildEmailHtml ::
  "js_string \<Rightarrow> js_string \<Rightarrow> json \<Rightarrow> js_string \<Rightarrow> js_error + js_string" where
  "buildEmailHtml fromPhone friendlyDate text mediaHtml =
     (case to_string text of
        Inl e \<Rightarrow> Inl e
      | Inr message \<Rightarrow>
          Inr (utf16 ''<h2>New SMS Received</h2>'' @ [0x0A]
               @ utf16 ''<p><strong>From:</strong> '' @ fromPhone @ utf16 ''</p>'' @ [0x0A]
               @ utf16 ''<p><strong>Received at:</strong> '' @ friendlyDate @ utf16 ''</p>'' @ [0x0A]
               @ utf16 ''<p><strong>Message:</strong> '' @ message @ utf16 ''</p>'' @ [0x0A]
               @ mediaHtml))"

definition buildEmailText :: "js_string \<Rightarrow> js_string \<Rightarrow> json \<Rightarrow> js_error + js_string" where
  "buildEmailText fromPhone friendlyDate text =
     (case to_string text of
        Inl e \<Rightarrow> Inl e
      | Inr message \<Rightarrow>
          Inr (utf16 ''New SMS Received'' @ [0x0A]
               @ utf16 ''From: '' @ fromPhone @ [0x0A]
               @ utf16 ''Received at: '' @ friendlyDate @ [0x0A]
               @ utf16 ''Message: '' @ message))"

text \<open>
  An effect takes the calls made so far and returns its outcome, a raised error or a
  value, with the calls made by then. An outcome of \<open>fetch\<close> that rejects is raised as
  a NetworkError, as is a failure to read a response body. In \<open>sendMailgunEmail\<close> the
  two bodies are built first, then \<open>new URLSearchParams(mailgunData)\<close> converts the
  recipient to a string, then the credentials are encoded; each of the three can raise,
  and then no call is made.
\<close>

definition sendMailgunEmail ::
  "env \<Rightarrow> network \<Rightarrow> json \<Rightarrow> js_string \<Rightarrow> js_string \<Rightarrow> json \<Rightarrow> js_string \<Rightarrow> call list
     \<Rightarrow> (js_error + unit) \<times> call list" where
  "sendMailgunEmail env net toEmail fromPhone friendlyDate text mediaHtml tr =
     (if \<not> truthy toEmail then (Inr (), tr)
      else
        (case buildEmailHtml fromPhone friendlyDate text mediaHtml of
           Inl e \<Rightarrow> (Inl e, tr)
         | Inr html \<Rightarrow>
             (case buildEmailText fromPhone friendlyDate text of
                Inl e \<Rightarrow> (Inl e, tr)
              | Inr plainText \<Rightarrow>
                  (case to_string toEmail of
                     Inl e \<Rightarrow> (Inl e, tr)
                   | Inr recipient \<Rightarrow>
                       (let mailgunData =
                              \<lparr>mg_from = utf16 ''SMS Alerts <'' @ env_text (FROM_EMAIL env)
                                           @ utf16 ''>'',
                               mg_to = recipient,
                               mg_subject = utf16 ''New SMS from '' @ fromPhone,
                               mg_html = html,
                               mg_text = plainText\<rparr>;
                            url = utf16 ''https://api.mailgun.net/v3/''
                                    @ env_text (MAILGUN_DOMAIN env) @ utf16 ''/messages''
                        in case btoa (utf16 ''api:'' @ env_text (MAILGUN_API_KEY env)) of
                             Inl e \<Rightarrow> (Inl e, tr)
                           | Inr credentials \<Rightarrow>
                               (case do_fetch net
                                       (MailgunPost url (utf16 ''Basic '' @ credentials)
                                          mailgunData) tr of
                                  (Rejected, tr') \<Rightarrow> (Inl NetworkError, tr')
                                | (Responded ok errorText, tr') \<Rightarrow>
                                    if ok then (Inr (), tr')
                                    else (case errorText of
                                            None \<Rightarrow> (Inl NetworkError, tr')
                                          | Some _ \<Rightarrow> (Inr (), tr'))))))))"

definition sendTelnyxReply ::
  "env \<Rightarrow> network \<Rightarrow> js_string \<Rightarrow> js_string \<Rightarrow> json \<Rightarrow> call list
     \<Rightarrow> (js_error + unit) \<times> call list" where
  "sendTelnyxReply env net toPhone fromPhone replyText tr =
     (if absent_or_empty (TELNYX_API_KEY env) then (Inr (), tr)
      else
        (case do_fetch net
                (TelnyxPost (utf16 ''Bearer '' @ env_text (TELNYX_API_KEY env))
                   \<lparr>tx_from = toPhone, tx_to = fromPhone, tx_text = replyText\<rparr>) tr of
           (Rejected, tr') \<Rightarrow> (Inl NetworkError, tr')
         | (Responded ok errorText, tr') \<Rightarrow>
             if ok then (Inr (), tr')
             else (case errorText of
                     None \<Rightarrow> (Inl NetworkError, tr')
                   | Some _ \<Rightarrow> (Inr (), tr'))))"

section \<open>Inlining the media\<close>

definition image_fragment :: \<open>js_string \<Rightarrow> js_string \<Rightarrow> js_string\<close> where
  \<open>image_fragment content_type base64Image =
     utf16 ''<p><strong>Image:</strong><br><img src="''
     @ (utf16 ''data:'' @ content_type @ utf16 '';base64,'' @ base64Image)
     @ utf16 ''" alt="MMS Image" style="max-width: 300px;"></p>''\<close>

definition failed_fragment :: "js_string \<Rightarrow> js_string" where
  "failed_fragment urlText =
     utf16 ''<p><strong>Image:</strong> Failed to load '' @ urlText @ utf16 ''</p>''"

text \<open>
  The body of the loop of \<open>processMedia\<close> for one item. The test
  \<open>item?.content_type?.startsWith("image/")\<close> stands outside the \<open>try\<close>: on a
  content type that is neither a string nor \<open>null\<close> nor \<open>undefined\<close> it calls
  something that is not a function, a TypeError that leaves \<open>processMedia\<close>. Inside
  the \<open>try\<close>, everything raised is caught and gives the "Failed to load" line; a
  response that is not \<open>ok\<close> takes neither branch and adds nothing. The line is built
  from \<open>${item.url}\<close> inside the \<open>catch\<close>: a url that cannot be converted to a
  string makes \<open>fetch\<close> reject before any call, and building the line then raises the
  TypeError again, which leaves \<open>processMedia\<close>.
\<close>

definition media_item ::
  "network \<Rightarrow> json \<Rightarrow> js_string \<Rightarrow> call list \<Rightarrow> (js_error + js_string) \<times> call list" where
  "media_item net item mediaHtml tr =
     (case opt_prop item (utf16 ''content_type'') of
        JUndefined \<Rightarrow> (Inr mediaHtml, tr)
      | JNull \<Rightarrow> (Inr mediaHtml, tr)
      | JStr content_type \<Rightarrow>
          if \<not> prefix (utf16 ''image/'') content_type then (Inr mediaHtml, tr)
          else
            (let url = read_prop item (utf16 ''url'') in
             if \<not> truthy url then (Inr mediaHtml, tr)
             else
               (case to_string url of
                  Inl e \<Rightarrow> (Inl e, tr)
                | Inr urlText \<Rightarrow>
                    (case do_fetch net (MediaFetch url) tr of
                       (Rejected, tr') \<Rightarrow> (Inr (mediaHtml @ failed_fragment urlText), tr')
                     | (Responded ok arrayBuffer, tr') \<Rightarrow>
                         if ok then
                           (case arrayBuffer of
                              None \<Rightarrow> (Inr (mediaHtml @ failed_fragment urlText), tr')
                            | Some bytes \<Rightarrow>
                                (case btoa (binary_string bytes) of
                                   Inl _ \<Rightarrow> (Inr (mediaHtml @ failed_fragment urlText), tr')
                                 | Inr base64Image \<Rightarrow>
                                     (Inr (mediaHtml @ image_fragment content_type base64Image),
                                      tr')))
                         else (Inr mediaHtml, tr'))))
      | _ \<Rightarrow> (Inl TypeError, tr))"

fun media_loop ::
  "network \<Rightarrow> json list \<Rightarrow> js_string \<Rightarrow> call list \<Rightarrow> (js_error + js_string) \<times> call list" where
  "media_loop net [] mediaHtml tr = (Inr mediaHtml, tr)"
| "media_loop net (item # items) mediaHtml tr =
     (case media_item net item mediaHtml tr of
        (Inl e, tr') \<Rightarrow> (Inl e, tr')
      | (Inr mediaHtml', tr') \<Rightarrow> media_loop net items mediaHtml' tr')"

text \<open>
  \<open>for (const item of messagePayload.media || [])\<close>: an array gives its elements; a
  non-empty string gives strings, which have no \<open>content_type\<close> and are all skipped;
  any other truthy value is not iterable.
\<close>

definition processMedia ::
  "network \<Rightarrow> json \<Rightarrow> call list \<Rightarrow> (js_error + js_string) \<times> call list" where
  "processMedia net messagePayload tr =
     (case get_prop messagePayload (utf16 ''media'') of
        Inl e \<Rightarrow> (Inl e, tr)
      | Inr m \<Rightarrow>
          (case js_or m (JArr []) of
             JArr items \<Rightarrow> media_loop net items [] tr
           | JStr _ \<Rightarrow> (Inr [], tr)
           | _ \<Rightarrow> (Inl TypeError, tr)))"

section \<open>Routes and the handler\<close>

text \<open>
  \<open>getRoute\<close> returns \<open>null\<close> for no route, and else whatever value the stored
  text parses to.
\<close>

definition getRoute :: "runtime \<Rightarrow> env \<Rightarrow> js_string option \<Rightarrow> json" where
  "getRoute rt env toPhone =
     (case toPhone of
        None \<Rightarrow> JNull
      | Some phone \<Rightarrow>
          if phone = [] then JNull
          else
            (case NUMBER_TO_EMAIL env (ROUTE_KEY_PREFIX @ phone) of
               None \<Rightarrow> JNull
             | Some raw \<Rightarrow>
                 if raw = [] then JNull
                 else
                   (case JSON_parse rt raw of
                      None \<Rightarrow> JNull
                    | Some route \<Rightarrow> route)))"

definition okResponse :: response where
  "okResponse = \<lparr>res_body = utf16 ''OK'', res_status = 200\<rparr>"

text \<open>
  The handler from \<open>const messagePayload = data.payload\<close> on, where both
  \<open>data\<close> and \<open>messagePayload\<close> have been read from already; \<open>dispatch\<close> is
  its part from \<open>const mode = route.mode\<close> on. A phone number or a stored text is a
  string or \<open>null\<close>, so \<open>!v\<close> holds of \<open>null\<close> and of the empty string. Of the
  lines the handler logs, one converts a parsed value: \<open>`Unsupported route mode:
  ${mode}`\<close>, which raises where the conversion of the mode does. \<open>new
  Date(data.occurred_at)\<close> raises where the conversion of the timestamp to a primitive
  does, before any call is made.
\<close>

definition dispatch ::
  "runtime \<Rightarrow> env \<Rightarrow> network \<Rightarrow> json \<Rightarrow> json \<Rightarrow> js_string \<Rightarrow> js_string option \<Rightarrow> json
     \<Rightarrow> js_string \<Rightarrow> json \<Rightarrow> (js_error + response) \<times> call list" where
  "dispatch rt env net data messagePayload fromPhone fromPhoneForReply text toPhone route =
     (let mode = read_prop route (utf16 ''mode'') in
      if mode = JStr (utf16 ''auto_reply'') then
        (if \<not> truthy (read_prop route (utf16 ''reply_text'')) then (Inr okResponse, [])
         else
           (case fromPhoneForReply of
              None \<Rightarrow> (Inr okResponse, [])
            | Some replyTo \<Rightarrow>
                if replyTo = [] then (Inr okResponse, [])
                else
                  (case sendTelnyxReply env net toPhone replyTo
                          (read_prop route (utf16 ''reply_text'')) [] of
                     (Inl e, tr) \<Rightarrow> (Inl e, tr)
                   | (Inr _, tr) \<Rightarrow> (Inr okResponse, tr))))
      else if mode = JStr (utf16 ''forward_email'') then
        (if \<not> truthy (read_prop route (utf16 ''email'')) then (Inr okResponse, [])
         else
           (case to_primitive (read_prop data (utf16 ''occurred_at'')) of
              Inl e \<Rightarrow> (Inl e, [])
            | Inr occurredAt \<Rightarrow>
                (let friendlyDate = toLocaleString rt occurredAt
                 in case processMedia net messagePayload [] of
                      (Inl e, tr) \<Rightarrow> (Inl e, tr)
                    | (Inr mediaHtml, tr) \<Rightarrow>
                        (case sendMailgunEmail env net (read_prop route (utf16 ''email''))
                                fromPhone friendlyDate text mediaHtml tr of
                           (Inl e, tr') \<Rightarrow> (Inl e, tr')
                         | (Inr _, tr') \<Rightarrow> (Inr okResponse, tr')))))
      else
        (case to_string mode of
           Inl e \<Rightarrow> (Inl e, [])
         | Inr _ \<Rightarrow> (Inr okResponse, [])))"

definition handle_message ::
  "runtime \<Rightarrow> env \<Rightarrow> network \<Rightarrow> json \<Rightarrow> json \<Rightarrow> (js_error + response) \<times> call list" where
  "handle_message rt env net data messagePayload =
     (let fromPhone = getFromPhone messagePayload;
          fromPhoneForReply = getFromPhoneForReply messagePayload
      in case getToPhone messagePayload of
           Inl e \<Rightarrow> (Inl e, [])
         | Inr toPhone \<Rightarrow>
             (let text = js_or (read_prop messagePayload (utf16 ''text''))
                               (JStr (utf16 ''(No text)''))
              in case toPhone of
                   None \<Rightarrow> (Inr okResponse, [])
                 | Some phone \<Rightarrow>
                     if phone = [] then (Inr okResponse, [])
                     else
                       (let route = getRoute rt env toPhone in
                        if \<not> truthy route then (Inr okResponse, [])
                        else dispatch rt env net data messagePayload fromPhone
                               fromPhoneForReply text phone route)))"

text \<open>
  The \<open>try\<close> block. \<open>||\<close> reads \<open>data.payload.direction\<close> only when the event type
  is \<open>message.received\<close>.
\<close>

definition try_block ::
  "runtime \<Rightarrow> env \<Rightarrow> network \<Rightarrow> request \<Rightarrow> (js_error + response) \<times> call list" where
  "try_block rt env net request =
     (case JSON_parse rt (req_body request) of
        None \<Rightarrow> (Inl SyntaxError, [])
      | Some payload \<Rightarrow>
          (case get_prop payload (utf16 ''data'') of
             Inl e \<Rightarrow> (Inl e, [])
           | Inr data \<Rightarrow>
               (case get_prop data (utf16 ''event_type'') of
                  Inl e \<Rightarrow> (Inl e, [])
                | Inr event_type \<Rightarrow>
                    if event_type \<noteq> JStr (utf16 ''message.received'') then (Inr okResponse, [])
                    else
                      (case get_prop (read_prop data (utf16 ''payload'')) (utf16 ''direction'') of
                         Inl e \<Rightarrow> (Inl e, [])
                       | Inr direction \<Rightarrow>
                           if direction \<noteq> JStr (utf16 ''inbound'') then (Inr okResponse, [])
                           else handle_message rt env net data
                                  (read_prop data (utf16 ''payload''))))))"

text \<open>
  The exported \<open>fetch\<close>: the response, and the outbound calls made while handling the
  request, in order.
\<close>

definition fetch_handler ::
  "runtime \<Rightarrow> env \<Rightarrow> network \<Rightarrow> request \<Rightarrow> response \<times> call list" where
  "fetch_handler rt env net request =
     (if req_method request \<noteq> utf16 ''POST''
      then (\<lparr>res_body = utf16 ''Method not allowed'', res_status = 405\<rparr>, [])
      else
        (case try_block rt env net request of
           (Inl e, tr) \<Rightarrow> (\<lparr>res_body = utf16 ''Internal Server Error'', res_status = 500\<rparr>, tr)
         | (Inr r, tr) \<Rightarrow> (r, tr)))"

section \<open>Concrete requests, routes and networks\<close>

text \<open>
  The inputs at which the theorems below are instantiated. \<open>sms_json\<close> is an inbound text
  message from \<open>+15550001111\<close> to \<open>+15551230000\<close>; \<open>mms_json\<close> is a picture
  message with an empty text and two image attachments; \<open>status_json\<close> is a delivery
  report of an outbound message. \<open>ex_parse\<close> is \<open>JSON.parse\<close> on the texts used here.
\<close>

definition sms_text :: js_string where
  \<open>sms_text = utf16 ''{"data":{"event_type":"message.received","occurred_at":"2026-01-02T21:04:05Z","payload":{"direction":"inbound","from":{"phone_number":"+15550001111"},"to":[{"phone_number":"+15551230000"}],"text":"Hi"}}}''\<close>

definition sms_payload :: json where
  "sms_payload =
     JObj [(utf16 ''direction'', JStr (utf16 ''inbound'')),
           (utf16 ''from'', JObj [(utf16 ''phone_number'', JStr (utf16 ''+15550001111''))]),
           (utf16 ''to'', JArr [JObj [(utf16 ''phone_number'', JStr (utf16 ''+15551230000''))]]),
           (utf16 ''text'', JStr (utf16 ''Hi''))]"

definition sms_data :: json where
  "sms_data =
     JObj [(utf16 ''event_type'', JStr (utf16 ''message.received'')),
           (utf16 ''occurred_at'', JStr (utf16 ''2026-01-02T21:04:05Z'')),
           (utf16 ''payload'', sms_payload)]"

definition sms_json :: json where
  "sms_json = JObj [(utf16 ''data'', sms_data)]"

definition mms_text :: js_string where
  \<open>mms_text = utf16 ''{"data":{"event_type":"message.received","occurred_at":"2026-01-02T21:04:05Z","payload":{"direction":"inbound","from":{"phone_number":"+15550001111"},"to":[{"phone_number":"+15551230000"}],"text":"","media":[{"content_type":"image/png","url":"https://m.example/a.png"},{"content_type":"image/png","url":"https://m.example/b.png"}]}}}''\<close>

definition mms_payload :: json where
  "mms_payload =
     JObj [(utf16 ''direction'', JStr (utf16 ''inbound'')),
           (utf16 ''from'', JObj [(utf16 ''phone_number'', JStr (utf16 ''+15550001111''))]),
           (utf16 ''to'', JArr [JObj [(utf16 ''phone_number'', JStr (utf16 ''+15551230000''))]]),
           (utf16 ''text'', JStr []),
           (utf16 ''media'',
            JArr [JObj [(utf16 ''content_type'', JStr (utf16 ''image/png'')),
                        (utf16 ''url'', JStr (utf16 ''https://m.example/a.png''))],
                  JObj [(utf16 ''content_type'', JStr (utf16 ''image/png'')),
                        (utf16 ''url'', JStr (utf16 ''https://m.example/b.png''))]])]"

definition mms_data :: json where
  "mms_data =
     JObj [(utf16 ''event_type'', JStr (utf16 ''message.received'')),
           (utf16 ''occurred_at'', JStr (utf16 ''2026-01-02T21:04:05Z'')),
           (utf16 ''payload'', mms_payload)]"

definition mms_json :: json where
  "mms_json = JObj [(utf16 ''data'', mms_data)]"

text \<open>
  Three further inbound messages to \<open>+15551230000\<close>, which is routed to an email
  address below: in \<open>object_media_json\<close> the media field is an object and not a list;
  in \<open>numeric_type_json\<close> the content type of the attachment is a number; in
  \<open>object_text_json\<close> the text is an object with a \<open>toString\<close> property.
\<close>

definition object_media_text :: js_string where
  \<open>object_media_text = utf16 ''{"data":{"event_type":"message.received","payload":{"direction":"inbound","to":"+15551230000","media":{}}}}''\<close>

definition object_media_json :: json where
  "object_media_json =
     JObj [(utf16 ''data'',
            JObj [(utf16 ''event_type'', JStr (utf16 ''message.received'')),
                  (utf16 ''payload'',
                   JObj [(utf16 ''direction'', JStr (utf16 ''inbound'')),
                         (utf16 ''to'', JStr (utf16 ''+15551230000'')),
                         (utf16 ''media'', JObj [])])])]"

definition numeric_type_text :: js_string where
  \<open>numeric_type_text = utf16 ''{"data":{"event_type":"message.received","payload":{"direction":"inbound","to":"+15551230000","media":[{"content_type":1,"url":"https://m.example/a.png"}]}}}''\<close>

definition numeric_type_json :: json where
  "numeric_type_json =
     JObj [(utf16 ''data'',
            JObj [(utf16 ''event_type'', JStr (utf16 ''message.received'')),
                  (utf16 ''payload'',
                   JObj [(utf16 ''direction'', JStr (utf16 ''inbound'')),
                         (utf16 ''to'', JStr (utf16 ''+15551230000'')),
                         (utf16 ''media'',
                          JArr [JObj [(utf16 ''content_type'', JNum (utf16 ''1'')),
                                      (utf16 ''url'', JStr (utf16 ''https://m.example/a.png''))]])])])]"

definition object_text_text :: js_string where
  \<open>object_text_text = utf16 ''{"data":{"event_type":"message.received","payload":{"direction":"inbound","to":"+15551230000","text":{"toString":1}}}}''\<close>

definition object_text_json :: json where
  "object_text_json =
     JObj [(utf16 ''data'',
            JObj [(utf16 ''event_type'', JStr (utf16 ''message.received'')),
                  (utf16 ''payload'',
                   JObj [(utf16 ''direction'', JStr (utf16 ''inbound'')),
                         (utf16 ''to'', JStr (utf16 ''+15551230000'')),
                         (utf16 ''text'', JObj [(utf16 ''toString'', JNum (utf16 ''1''))])])])]"

definition status_text :: js_string where
  \<open>status_text = utf16 ''{"data":{"event_type":"message.finalized","payload":{"direction":"outbound"}}}''\<close>

definition status_data :: json where
  "status_data =
     JObj [(utf16 ''event_type'', JStr (utf16 ''message.finalized'')),
           (utf16 ''payload'', JObj [(utf16 ''direction'', JStr (utf16 ''outbound''))])]"

definition status_json :: json where
  "status_json = JObj [(utf16 ''data'', status_data)]"

definition reply_route_text :: js_string where
  \<open>reply_route_text = utf16 ''{"mode":"auto_reply","reply_text":"Thanks!"}''\<close>

definition reply_route :: json where
  "reply_route =
     JObj [(utf16 ''mode'', JStr (utf16 ''auto_reply'')),
           (utf16 ''reply_text'', JStr (utf16 ''Thanks!''))]"

definition email_route_text :: js_string where
  \<open>email_route_text = utf16 ''{"mode":"forward_email","email":"a@b.com"}''\<close>

definition email_route :: json where
  "email_route =
     JObj [(utf16 ''mode'', JStr (utf16 ''forward_email'')),
           (utf16 ''email'', JStr (utf16 ''a@b.com''))]"

definition ex_parse :: "js_string \<Rightarrow> json option" where
  "ex_parse s =
     (if s = reply_route_text then Some reply_route
      else if s = email_route_text then Some email_route
      else if s = status_text then Some status_json
      else if s = sms_text then Some sms_json
      else if s = object_media_text then Some object_media_json
      else if s = numeric_type_text then Some numeric_type_json
      else if s = object_text_text then Some object_text_json
      else if s = mms_text then Some mms_json
      else None)"

definition ex_rt :: runtime where
  "ex_rt = \<lparr>JSON_parse = ex_parse,
            toLocaleString = (\<lambda>v. utf16 ''1/2/2026, 3:04:05 PM CST'')\<rparr>"

text \<open>
  Three key-value stores for the destination \<open>+15551230000\<close>: one routes it to an
  automatic reply, one to an email address, one holds a text that is not JSON.
\<close>

definition kv_reply :: "js_string \<Rightarrow> js_string option" where
  "kv_reply k = (if k = utf16 ''route:+15551230000'' then Some reply_route_text else None)"

definition kv_email :: "js_string \<Rightarrow> js_string option" where
  "kv_email k = (if k = utf16 ''route:+15551230000'' then Some email_route_text else None)"

definition kv_broken :: "js_string \<Rightarrow> js_string option" where
  "kv_broken k = (if k = utf16 ''route:+15551230000'' then Some (utf16 ''{mode:'') else None)"

definition ex_env :: "js_string option \<Rightarrow> (js_string \<Rightarrow> js_string option) \<Rightarrow> env" where
  "ex_env telnyx_key kv =
     \<lparr>FROM_EMAIL = Some (utf16 ''sms@mg.example''),
      MAILGUN_DOMAIN = Some (utf16 ''mg.example''),
      MAILGUN_API_KEY = Some (utf16 ''key-1''),
      TELNYX_API_KEY = telnyx_key,
      NUMBER_TO_EMAIL = kv\<rparr>"

text \<open>
  \<open>net_ok\<close> answers every call with an empty successful response. \<open>net_media_down\<close>
  answers the download of \<open>a.png\<close> with a response that is not \<open>ok\<close> (a 404, say)
  and lets the download of \<open>b.png\<close> reject.
\<close>

definition net_ok :: network where
  "net_ok n c = Responded True (Some [])"

definition net_media_down :: network where
  "net_media_down n c =
     (if c = MediaFetch (JStr (utf16 ''https://m.example/a.png'')) then Responded False (Some [])
      else if c = MediaFetch (JStr (utf16 ''https://m.example/b.png'')) then Rejected
      else Responded True (Some []))"

definition post :: "js_string \<Rightarrow> request" where
  "post b = \<lparr>req_method = utf16 ''POST'', req_body = b\<rparr>"

section \<open>Properties of phone number normalization\<close>

lemma plus_not_space: "\<not> is_js_space 0x2B"
  by (simp add: is_js_space_def)

lemma digit_not_space: "is_digit c \<Longrightarrow> \<not> is_js_space c"
  unfolding is_digit_def is_js_space_def
  by (auto simp: word_le_nat_alt)

lemma utf16_plus: "utf16 ''+'' = [0x2B]"
  by (simp add: utf16_def)

lemma filter_digit_dropWhile:
  "filter is_digit (dropWhile is_js_space xs) = filter is_digit xs"
  by (induction xs) (auto dest: digit_not_space)

text \<open>Trimming removes no digit.\<close>

lemma filter_digit_trim: "filter is_digit (trim s) = filter is_digit s"
  by (simp add: trim_def filter_digit_dropWhile flip: rev_filter)

lemma trim_plus: "\<exists>r. trim (0x2B # s) = 0x2B # r"
  by (simp add: trim_def plus_not_space dropWhile_append3)

text \<open>
  Whether the trimmed text starts with \<open>+\<close> is decided by the first code unit that is
  not white space.
\<close>

lemma prefix_trim_iff:
  "prefix [0x2B] (trim s) \<longleftrightarrow> prefix [0x2B] (dropWhile is_js_space s)"
proof (cases "dropWhile is_js_space s")
  case Nil
  then have "trim s = []"
    by (simp only: trim_def rev.simps dropWhile.simps)
  then show ?thesis
    by (simp only: Nil prefix_Nil)
next
  case (Cons c r)
  then have "\<not> is_js_space c"
    by (metis hd_dropWhile list.sel(1) list.distinct(1))
  then have "\<exists>r'. trim s = c # r'"
    using Cons by (simp add: trim_def dropWhile_append3)
  then show ?thesis
    using Cons by auto
qed

text \<open>
  C4, as the specification states it: every string that does not start with \<open>+\<close>
  normalizes to an absent value. The code trims the string first, so a valid number after
  leading white space is accepted: the string \<open>" +15551234567"\<close> does not start with
  \<open>+\<close> and normalizes to \<open>+15551234567\<close>.
\<close>

theorem C4_leading_space_counterexample:
  "\<not> prefix (utf16 ''+'') (utf16 '' +15551234567'')
   \<and> normalizePhoneNumber (JStr (utf16 '' +15551234567'')) = Some (utf16 ''+15551234567'')"
  by code_simp

text \<open>
  C4, amended: every string whose first code unit after the leading white space is not
  \<open>+\<close> (or that is white space only) normalizes to an absent value.
\<close>

theorem C4_no_plus_after_trim_absent:
  assumes "\<not> prefix (utf16 ''+'') (dropWhile is_js_space s)"
  shows "normalizePhoneNumber (JStr s) = None"
  using assms by (simp add: normalizePhoneNumber_def Let_def utf16_plus prefix_trim_iff)

theorem C4_no_plus_after_trim_absent_witness:
  "\<not> prefix (utf16 ''+'') (dropWhile is_js_space (utf16 '' 15551234567''))
   \<and> normalizePhoneNumber (JStr (utf16 '' 15551234567'')) = None"
proof -
  have h: "\<not> prefix (utf16 ''+'') (dropWhile is_js_space (utf16 '' 15551234567''))"
    by code_simp
  show ?thesis
    using h C4_no_plus_after_trim_absent [OF h] by simp
qed

text \<open>
  C5: a string that starts with \<open>+\<close> and holds between 8 and 15 digits normalizes to
  \<open>+\<close> followed by exactly its digits, in order, whatever stands between them; with
  fewer than 8 or more than 15 digits the result is absent.
\<close>

theorem C5_plus_then_digits:
  assumes "prefix (utf16 ''+'') s"
  shows "normalizePhoneNumber (JStr s) =
           (if 8 \<le> length (filter is_digit s) \<and> length (filter is_digit s) \<le> 15
            then Some (utf16 ''+'' @ filter is_digit s)
            else None)"
  using assms trim_plus
  by (auto simp: normalizePhoneNumber_def Let_def filter_digit_trim utf16_plus prefix_def
        E164_MIN_DIGITS_def E164_MAX_DIGITS_def)

theorem C5_plus_then_digits_witness:
  "prefix (utf16 ''+'') (utf16 ''+1 (555) 123-4567'')
   \<and> normalizePhoneNumber (JStr (utf16 ''+1 (555) 123-4567'')) = Some (utf16 ''+15551234567'')"
proof -
  have h: "prefix (utf16 ''+'') (utf16 ''+1 (555) 123-4567'')"
    by code_simp
  have d: "filter is_digit (utf16 ''+1 (555) 123-4567'') = utf16 ''15551234567''"
    by code_simp
  have e: "utf16 ''+'' @ utf16 ''15551234567'' = utf16 ''+15551234567''"
    by (simp add: utf16_def)
  have l: "length (utf16 ''15551234567'') = 11"
    by (simp add: utf16_def)
  show ?thesis
    using h C5_plus_then_digits [OF h] by (simp only: d e l) simp
qed

section \<open>Properties of the handler\<close>

text \<open>
  An inbound \<open>message.received\<close> event passes the filter of the \<open>try\<close> block without
  raising: the two properties it tests can only be read from objects.
\<close>

lemma read_prop_JStr_not_nullish: "read_prop v k = JStr s \<Longrightarrow> \<not> nullish v"
  by (cases v) auto

lemma not_nullish_get_prop: "\<not> nullish v \<Longrightarrow> get_prop v k = Inr (read_prop v k)"
  by (simp add: get_prop_def)

lemma read_prop_JStr_truthy: "read_prop v k = JStr s \<Longrightarrow> truthy v"
  by (cases v) auto

lemma normalizePhoneNumber_nonempty: "normalizePhoneNumber v = Some p \<Longrightarrow> p \<noteq> []"
  by (auto simp: normalizePhoneNumber_def Let_def utf16_plus split: json.splits if_splits)

lemma getToPhone_nonempty: "getToPhone mp = Inr (Some p) \<Longrightarrow> p \<noteq> []"
  by (auto simp: getToPhone_def split: sum.splits dest: normalizePhoneNumber_nonempty)

lemma getFromPhoneForReply_nonempty: "getFromPhoneForReply mp = Some p \<Longrightarrow> p \<noteq> []"
  by (auto simp: getFromPhoneForReply_def dest: normalizePhoneNumber_nonempty)

lemma try_block_inbound:
  assumes "JSON_parse rt (req_body request) = Some payload"
    and "read_prop (read_prop payload (utf16 ''data'')) (utf16 ''event_type'')
           = JStr (utf16 ''message.received'')"
    and "read_prop (read_prop (read_prop payload (utf16 ''data'')) (utf16 ''payload''))
           (utf16 ''direction'') = JStr (utf16 ''inbound'')"
  shows "try_block rt env net request =
           handle_message rt env net (read_prop payload (utf16 ''data''))
             (read_prop (read_prop payload (utf16 ''data'')) (utf16 ''payload''))"
proof -
  have d: "\<not> nullish (read_prop payload (utf16 ''data''))"
    using assms(2) by (rule read_prop_JStr_not_nullish)
  then have p: "\<not> nullish payload"
    by (cases payload) auto
  have m: "\<not> nullish (read_prop (read_prop payload (utf16 ''data'')) (utf16 ''payload''))"
    using assms(3) by (rule read_prop_JStr_not_nullish)
  show ?thesis
    by (simp add: try_block_def assms not_nullish_get_prop d p m)
qed

lemma handle_message_routed:
  assumes "getToPhone mp = Inr (Some dest)"
    and "getRoute rt env (Some dest) = route"
    and "truthy route"
  shows "handle_message rt env net data mp =
           dispatch rt env net data mp (getFromPhone mp) (getFromPhoneForReply mp)
             (js_or (read_prop mp (utf16 ''text'')) (JStr (utf16 ''(No text)''))) dest route"
  using assms getToPhone_nonempty [OF assms(1)]
  by (simp add: handle_message_def Let_def)

lemma fetch_handler_dispatch:
  assumes "req_method request = utf16 ''POST''"
    and "JSON_parse rt (req_body request) = Some payload"
    and "data = read_prop payload (utf16 ''data'')"
    and "read_prop data (utf16 ''event_type'') = JStr (utf16 ''message.received'')"
    and "messagePayload = read_prop data (utf16 ''payload'')"
    and "read_prop messagePayload (utf16 ''direction'') = JStr (utf16 ''inbound'')"
    and "getToPhone messagePayload = Inr (Some dest)"
    and "getRoute rt env (Some dest) = route"
    and "truthy route"
  shows "fetch_handler rt env net request =
           (case dispatch rt env net data messagePayload (getFromPhone messagePayload)
                   (getFromPhoneForReply messagePayload)
                   (js_or (read_prop messagePayload (utf16 ''text'')) (JStr (utf16 ''(No text)'')))
                   dest route of
              (Inl e, tr) \<Rightarrow> (\<lparr>res_body = utf16 ''Internal Server Error'', res_status = 500\<rparr>, tr)
            | (Inr r, tr) \<Rightarrow> (r, tr))"
proof -
  have "try_block rt env net request = handle_message rt env net data messagePayload"
    unfolding assms(3,5) using assms(2,4,6) unfolding assms(3,5) by (rule try_block_inbound)
  then show ?thesis
    using assms(1) handle_message_routed [OF assms(7,8,9)]
    by (simp add: fetch_handler_def)
qed

lemma sendTelnyxReply_no_key:
  "absent_or_empty (TELNYX_API_KEY env) \<Longrightarrow>
   sendTelnyxReply env net toPhone fromPhone replyText tr = (Inr (), tr)"
  by (simp add: sendTelnyxReply_def)

lemma sendTelnyxReply_calls:
  "\<not> absent_or_empty (TELNYX_API_KEY env) \<Longrightarrow>
   snd (sendTelnyxReply env net toPhone fromPhone replyText tr) =
     tr @ [TelnyxPost (utf16 ''Bearer '' @ env_text (TELNYX_API_KEY env))
             \<lparr>tx_from = toPhone, tx_to = fromPhone, tx_text = replyText\<rparr>]"
  by (simp add: sendTelnyxReply_def do_fetch_def split: fetch_result.splits option.splits)

section \<open>Properties of the media inliner and the email sender\<close>

text \<open>
  Whatever the attachments are, the only calls \<open>processMedia\<close> makes are downloads.
\<close>

lemma media_item_trace:
  "\<exists>cs. snd (media_item net item mediaHtml tr) = tr @ cs
        \<and> (\<forall>c\<in>set cs. \<exists>u. c = MediaFetch u)"
proof (cases "opt_prop item (utf16 ''content_type'')")
  case (JStr s)
  show ?thesis
  proof (cases "to_string (read_prop item (utf16 ''url''))")
    case (Inl e)
    then show ?thesis
      unfolding media_item_def JStr by (simp add: Let_def)
  next
    case (Inr u)
    have "snd (media_item net item mediaHtml tr) = tr
          \<or> snd (media_item net item mediaHtml tr) = tr @ [MediaFetch (read_prop item (utf16 ''url''))]"
      unfolding media_item_def JStr
      by (simp add: do_fetch_def Let_def Inr
            split: fetch_result.splits option.splits sum.splits)
    then show ?thesis
    proof
      assume "snd (media_item net item mediaHtml tr) = tr"
      then have "snd (media_item net item mediaHtml tr) = tr @ []
                 \<and> (\<forall>c\<in>set []. \<exists>u. c = MediaFetch u)"
        by simp
      then show ?thesis by blast
    next
      assume "snd (media_item net item mediaHtml tr)
                = tr @ [MediaFetch (read_prop item (utf16 ''url''))]"
      then have "snd (media_item net item mediaHtml tr)
                   = tr @ [MediaFetch (read_prop item (utf16 ''url''))]
                 \<and> (\<forall>c\<in>set [MediaFetch (read_prop item (utf16 ''url''))]. \<exists>u. c = MediaFetch u)"
        by simp
      then show ?thesis by blast
    qed
  qed
qed (simp_all add: media_item_def)

lemma media_loop_trace:
  "\<exists>cs. snd (media_loop net items mediaHtml tr) = tr @ cs
        \<and> (\<forall>c\<in>set cs. \<exists>u. c = MediaFetch u)"
proof (induction items arbitrary: mediaHtml tr)
  case Nil
  then show ?case by simp
next
  case (Cons item items)
  obtain r tr1 where m: "media_item net item mediaHtml tr = (r, tr1)"
    by (cases "media_item net item mediaHtml tr") auto
  obtain cs1 where 1: "tr1 = tr @ cs1" and c1: "\<forall>c\<in>set cs1. \<exists>u. c = MediaFetch u"
    using media_item_trace [of net item mediaHtml tr] m by auto
  show ?case
  proof (cases r)
    case (Inl e)
    then have "snd (media_loop net (item # items) mediaHtml tr) = tr @ cs1"
      using m 1 by simp
    then show ?thesis using c1 by blast
  next
    case (Inr h)
    obtain cs2 where 2: "snd (media_loop net items h tr1) = tr1 @ cs2"
      and c2: "\<forall>c\<in>set cs2. \<exists>u. c = MediaFetch u"
      using Cons.IH [of h tr1] by blast
    have "snd (media_loop net (item # items) mediaHtml tr) = tr @ (cs1 @ cs2)"
      using m Inr 1 2 by simp
    moreover have "\<forall>c\<in>set (cs1 @ cs2). \<exists>u. c = MediaFetch u"
      using c1 c2 by auto
    ultimately show ?thesis by blast
  qed
qed

lemma processMedia_trace:
  "\<forall>c\<in>set (snd (processMedia net messagePayload [])). \<exists>u. c = MediaFetch u"
proof -
  have "snd (processMedia net messagePayload []) = []
        \<or> (\<exists>items. snd (processMedia net messagePayload []) = snd (media_loop net items [] []))"
    by (auto simp: processMedia_def split: sum.splits json.splits)
  then show ?thesis
    using media_loop_trace [of net _ "[]" "[]"] by auto
qed

text \<open>
  On a list of attachments whose content types are strings or missing and whose urls can
  be converted to strings, the loop of \<open>processMedia\<close> returns.
\<close>

lemma media_item_returns:
  assumes "nullish (opt_prop item (utf16 ''content_type''))
           \<or> (\<exists>s. opt_prop item (utf16 ''content_type'') = JStr s)"
    and "\<exists>u. to_string (read_prop item (utf16 ''url'')) = Inr u"
  shows "\<exists>html. fst (media_item net item mediaHtml tr) = Inr html"
proof (cases "opt_prop item (utf16 ''content_type'')")
  case (JStr s)
  from assms(2) obtain u where "to_string (read_prop item (utf16 ''url'')) = Inr u"
    by blast
  then show ?thesis
    unfolding media_item_def JStr
    by (simp add: do_fetch_def Let_def split: fetch_result.splits option.splits sum.splits)
qed (use assms in \<open>auto simp: media_item_def\<close>)

lemma media_loop_returns:
  assumes "\<forall>item\<in>set items.
             (nullish (opt_prop item (utf16 ''content_type''))
              \<or> (\<exists>s. opt_prop item (utf16 ''content_type'') = JStr s))
             \<and> (\<exists>u. to_string (read_prop item (utf16 ''url'')) = Inr u)"
  shows "\<exists>html. fst (media_loop net items mediaHtml tr) = Inr html"
  using assms
proof (induction items arbitrary: mediaHtml tr)
  case Nil
  then show ?case by simp
next
  case (Cons item items)
  from Cons.prems
  have "nullish (opt_prop item (utf16 ''content_type''))
        \<or> (\<exists>s. opt_prop item (utf16 ''content_type'') = JStr s)"
    and "\<exists>u. to_string (read_prop item (utf16 ''url'')) = Inr u"
    by simp_all
  from media_item_returns [OF this, of net mediaHtml tr]
  obtain h1 tr1 where 1: "media_item net item mediaHtml tr = (Inr h1, tr1)"
    by (cases "media_item net item mediaHtml tr") auto
  from Cons.prems
  have "\<forall>item\<in>set items.
             (nullish (opt_prop item (utf16 ''content_type''))
              \<or> (\<exists>s. opt_prop item (utf16 ''content_type'') = JStr s))
             \<and> (\<exists>u. to_string (read_prop item (utf16 ''url'')) = Inr u)"
    by simp
  from Cons.IH [OF this, of h1 tr1] show ?case
    using 1 by simp
qed

lemma processMedia_returns:
  assumes "\<not> nullish messagePayload"
    and "js_or (read_prop messagePayload (utf16 ''media'')) (JArr []) = JArr items"
    and "\<forall>item\<in>set items.
             (nullish (opt_prop item (utf16 ''content_type''))
              \<or> (\<exists>s. opt_prop item (utf16 ''content_type'') = JStr s))
             \<and> (\<exists>u. to_string (read_prop item (utf16 ''url'')) = Inr u)"
  shows "\<exists>html cs. processMedia net messagePayload [] = (Inr html, cs)
                   \<and> (\<forall>c\<in>set cs. \<exists>u. c = MediaFetch u)"
proof -
  obtain html where "fst (media_loop net items [] []) = Inr html"
    using media_loop_returns [OF assms(3), of net "[]" "[]"] by blast
  then have "fst (processMedia net messagePayload []) = Inr html"
    using assms(1,2) by (simp add: processMedia_def not_nullish_get_prop)
  then have "processMedia net messagePayload [] =
               (Inr html, snd (processMedia net messagePayload []))"
    by (cases "processMedia net messagePayload []") simp
  then show ?thesis
    using processMedia_trace [of net messagePayload] by blast
qed

lemma btoa_latin1:
  assumes "list_all (\<lambda>c. c \<le> 0xFF) s"
  shows "\<exists>b. btoa (utf16 ''api:'' @ s) = Inr b"
  using assms by (simp add: btoa_def utf16_def)

text \<open>
  The email sender makes its call once the bodies are built, the recipient is converted
  and the credentials are encoded; it makes no other call, and the bodies of the call are
  what the two templates give.
\<close>

lemma sendMailgunEmail_calls:
  assumes "truthy toEmail"
    and "to_string toEmail = Inr recipient"
    and "buildEmailHtml fromPhone friendlyDate text mediaHtml = Inr html"
    and "buildEmailText fromPhone friendlyDate text = Inr plainText"
    and "btoa (utf16 ''api:'' @ env_text (MAILGUN_API_KEY env)) = Inr credentials"
  shows "snd (sendMailgunEmail env net toEmail fromPhone friendlyDate text mediaHtml tr) =
           tr @ [MailgunPost
                   (utf16 ''https://api.mailgun.net/v3/'' @ env_text (MAILGUN_DOMAIN env)
                      @ utf16 ''/messages'')
                   (utf16 ''Basic '' @ credentials)
                   \<lparr>mg_from = utf16 ''SMS Alerts <'' @ env_text (FROM_EMAIL env) @ utf16 ''>'',
                    mg_to = recipient,
                    mg_subject = utf16 ''New SMS from '' @ fromPhone,
                    mg_html = html,
                    mg_text = plainText\<rparr>]"
  using assms
  by (simp add: sendMailgunEmail_def do_fetch_def Let_def
        split: fetch_result.splits option.splits)

lemma sendMailgunEmail_trace:
  "snd (sendMailgunEmail env net toEmail fromPhone friendlyDate text mediaHtml tr) = tr
   \<or> (\<exists>url authorization m.
         snd (sendMailgunEmail env net toEmail fromPhone friendlyDate text mediaHtml tr)
           = tr @ [MailgunPost url authorization m]
         \<and> buildEmailHtml fromPhone friendlyDate text mediaHtml = Inr (mg_html m)
         \<and> buildEmailText fromPhone friendlyDate text = Inr (mg_text m))"
  by (simp add: sendMailgunEmail_def do_fetch_def Let_def
        split: fetch_result.splits option.splits sum.splits)

lemma sendTelnyxReply_trace:
  "snd (sendTelnyxReply env net toPhone fromPhone replyText tr) = tr
   \<or> (\<exists>authorization b.
         snd (sendTelnyxReply env net toPhone fromPhone replyText tr)
           = tr @ [TelnyxPost authorization b])"
  by (simp add: sendTelnyxReply_def do_fetch_def split: fetch_result.splits option.splits)

lemma snd_catch:
  "snd (case x of (Inl e, tr) \<Rightarrow> (r500, tr) | (Inr r, tr) \<Rightarrow> (r, tr)) = snd x"
  by (cases x) (auto split: sum.splits)

lemma snd_then_ok:
  "snd (case x of (Inl e, tr) \<Rightarrow> (Inl e, tr) | (Inr r, tr) \<Rightarrow> (Inr ok, tr)) = snd x"
  by (cases x) (auto split: sum.splits)

text \<open>
  Every email the dispatcher sends is built by the two templates from the sender and the
  message text it was given.
\<close>

lemma dispatch_mail:
  assumes "MailgunPost url authorization m
             \<in> set (snd (dispatch rt env net data messagePayload fromPhone fromPhoneForReply
                             text toPhone route))"
  shows "\<exists>friendlyDate mediaHtml.
           buildEmailHtml fromPhone friendlyDate text mediaHtml = Inr (mg_html m)
           \<and> buildEmailText fromPhone friendlyDate text = Inr (mg_text m)"
proof (cases "read_prop route (utf16 ''mode'') = JStr (utf16 ''auto_reply'')")
  case True
  have "snd (dispatch rt env net data messagePayload fromPhone fromPhoneForReply
               text toPhone route) = []
        \<or> (\<exists>replyTo. snd (dispatch rt env net data messagePayload fromPhone fromPhoneForReply
               text toPhone route)
              = snd (sendTelnyxReply env net toPhone replyTo
                       (read_prop route (utf16 ''reply_text'')) []))"
    using True by (auto simp: dispatch_def snd_then_ok split: option.splits)
  then show ?thesis
  proof
    assume "snd (dispatch rt env net data messagePayload fromPhone fromPhoneForReply
               text toPhone route) = []"
    then show ?thesis using assms by simp
  next
    assume "\<exists>replyTo. snd (dispatch rt env net data messagePayload fromPhone fromPhoneForReply
               text toPhone route)
              = snd (sendTelnyxReply env net toPhone replyTo
                       (read_prop route (utf16 ''reply_text'')) [])"
    then obtain replyTo
      where e: "snd (dispatch rt env net data messagePayload fromPhone fromPhoneForReply
               text toPhone route)
              = snd (sendTelnyxReply env net toPhone replyTo
                       (read_prop route (utf16 ''reply_text'')) [])"
      by blast
    from sendTelnyxReply_trace
      [of env net toPhone replyTo "read_prop route (utf16 ''reply_text'')" "[]"]
    have "MailgunPost url authorization m
            \<notin> set (snd (sendTelnyxReply env net toPhone replyTo
                           (read_prop route (utf16 ''reply_text'')) []))"
      by auto
    then show ?thesis using assms e by simp
  qed
next
  case False
  show ?thesis
  proof (cases "read_prop route (utf16 ''mode'') = JStr (utf16 ''forward_email'')
                \<and> truthy (read_prop route (utf16 ''email''))")
    case no: False
    then have "snd (dispatch rt env net data messagePayload fromPhone fromPhoneForReply
                      text toPhone route) = []"
      using False by (auto simp: dispatch_def Let_def split: sum.splits)
    then show ?thesis using assms by simp
  next
    case yes: True
    show ?thesis
    proof (cases "to_primitive (read_prop data (utf16 ''occurred_at''))")
      case (Inl e)
      then have "snd (dispatch rt env net data messagePayload fromPhone fromPhoneForReply
                        text toPhone route) = []"
        using False yes by (simp add: dispatch_def)
      then show ?thesis using assms by simp
    next
      case (Inr occurredAt)
      obtain r downloads where p: "processMedia net messagePayload [] = (r, downloads)"
        by (cases "processMedia net messagePayload []") auto
      have d: "\<forall>c\<in>set downloads. \<exists>u. c = MediaFetch u"
        using processMedia_trace [of net messagePayload] p by simp
      show ?thesis
      proof (cases r)
        case (Inl e)
        then have "snd (dispatch rt env net data messagePayload fromPhone fromPhoneForReply
                          text toPhone route) = downloads"
          using False yes Inr p by (simp add: dispatch_def)
        then show ?thesis using assms d by auto
      next
        case mh: (Inr mediaHtml)
        have s: "snd (dispatch rt env net data messagePayload fromPhone fromPhoneForReply
                     text toPhone route)
                 = snd (sendMailgunEmail env net (read_prop route (utf16 ''email'')) fromPhone
                          (toLocaleString rt occurredAt) text mediaHtml downloads)"
          using False yes Inr p mh by (simp add: dispatch_def Let_def snd_then_ok)
        from sendMailgunEmail_trace [of env net "read_prop route (utf16 ''email'')" fromPhone
            "toLocaleString rt occurredAt" "text" mediaHtml downloads]
        show ?thesis
        proof
          assume "snd (sendMailgunEmail env net (read_prop route (utf16 ''email'')) fromPhone
                          (toLocaleString rt occurredAt) text mediaHtml downloads) = downloads"
          then show ?thesis using assms s d by auto
        next
          assume "\<exists>url authorization m.
             snd (sendMailgunEmail env net (read_prop route (utf16 ''email'')) fromPhone
                          (toLocaleString rt occurredAt) text mediaHtml downloads)
               = downloads @ [MailgunPost url authorization m]
             \<and> buildEmailHtml fromPhone (toLocaleString rt occurredAt) text mediaHtml
                 = Inr (mg_html m)
             \<and> buildEmailText fromPhone (toLocaleString rt occurredAt) text = Inr (mg_text m)"
          then obtain url' authorization' m'
            where t: "snd (sendMailgunEmail env net (read_prop route (utf16 ''email'')) fromPhone
                          (toLocaleString rt occurredAt) text mediaHtml downloads)
                       = downloads @ [MailgunPost url' authorization' m']"
              and h: "buildEmailHtml fromPhone (toLocaleString rt occurredAt) text mediaHtml
                        = Inr (mg_html m')"
              and x: "buildEmailText fromPhone (toLocaleString rt occurredAt) text
                        = Inr (mg_text m')"
            by blast
          have "m = m'"
            using assms s t d by auto
          then show ?thesis using h x by blast
        qed
      qed
    qed
  qed
qed

text \<open>What the two templates hold.\<close>

lemma buildEmailHtml_contains:
  assumes "buildEmailHtml fromPhone friendlyDate text mediaHtml = Inr html"
    and "to_string text = Inr message"
  shows "sublist (utf16 ''<p><strong>Message:</strong> '' @ message @ utf16 ''</p>'') html"
    and "sublist message html"
    and "sublist friendlyDate html"
proof -
  have h: "html =
          utf16 ''<h2>New SMS Received</h2>'' @ [0x0A]
          @ utf16 ''<p><strong>From:</strong> '' @ fromPhone @ utf16 ''</p>'' @ [0x0A]
          @ utf16 ''<p><strong>Received at:</strong> '' @ friendlyDate @ utf16 ''</p>'' @ [0x0A]
          @ utf16 ''<p><strong>Message:</strong> '' @ message @ utf16 ''</p>'' @ [0x0A]
          @ mediaHtml"
    using assms by (simp add: buildEmailHtml_def)
  have "html =
          (utf16 ''<h2>New SMS Received</h2>'' @ [0x0A]
           @ utf16 ''<p><strong>From:</strong> '' @ fromPhone @ utf16 ''</p>'' @ [0x0A]
           @ utf16 ''<p><strong>Received at:</strong> '' @ friendlyDate @ utf16 ''</p>'' @ [0x0A])
          @ (utf16 ''<p><strong>Message:</strong> '' @ message @ utf16 ''</p>'')
          @ ([0x0A] @ mediaHtml)"
    unfolding h by simp
  then show "sublist (utf16 ''<p><strong>Message:</strong> '' @ message @ utf16 ''</p>'') html"
    by (simp only: sublist_appendI)
  have "html =
          (utf16 ''<h2>New SMS Received</h2>'' @ [0x0A]
           @ utf16 ''<p><strong>From:</strong> '' @ fromPhone @ utf16 ''</p>'' @ [0x0A]
           @ utf16 ''<p><strong>Received at:</strong> '' @ friendlyDate @ utf16 ''</p>'' @ [0x0A]
           @ utf16 ''<p><strong>Message:</strong> '')
          @ message @ (utf16 ''</p>'' @ [0x0A] @ mediaHtml)"
    unfolding h by simp
  then show "sublist message html"
    by (simp only: sublist_appendI)
  have "html =
          (utf16 ''<h2>New SMS Received</h2>'' @ [0x0A]
           @ utf16 ''<p><strong>From:</strong> '' @ fromPhone @ utf16 ''</p>'' @ [0x0A]
           @ utf16 ''<p><strong>Received at:</strong> '')
          @ friendlyDate
          @ (utf16 ''</p>'' @ [0x0A]
             @ utf16 ''<p><strong>Message:</strong> '' @ message @ utf16 ''</p>'' @ [0x0A]
             @ mediaHtml)"
    unfolding h by simp
  then show "sublist friendlyDate html"
    by (simp only: sublist_appendI)
qed

lemma buildEmailText_contains:
  assumes "buildEmailText fromPhone friendlyDate text = Inr plainText"
    and "to_string text = Inr message"
  shows "suffix (utf16 ''Message: '' @ message) plainText"
    and "sublist message plainText"
    and "sublist friendlyDate plainText"
proof -
  have h: "plainText =
          utf16 ''New SMS Received'' @ [0x0A] @ utf16 ''From: '' @ fromPhone @ [0x0A]
          @ utf16 ''Received at: '' @ friendlyDate @ [0x0A] @ utf16 ''Message: '' @ message"
    using assms by (simp add: buildEmailText_def)
  have "plainText =
          (utf16 ''New SMS Received'' @ [0x0A] @ utf16 ''From: '' @ fromPhone @ [0x0A]
           @ utf16 ''Received at: '' @ friendlyDate @ [0x0A])
          @ (utf16 ''Message: '' @ message)"
    unfolding h by simp
  then show "suffix (utf16 ''Message: '' @ message) plainText"
    by (simp only: suffixI)
  have "plainText =
          (utf16 ''New SMS Received'' @ [0x0A] @ utf16 ''From: '' @ fromPhone @ [0x0A]
           @ utf16 ''Received at: '' @ friendlyDate @ [0x0A] @ utf16 ''Message: '')
          @ message @ []"
    unfolding h by simp
  then show "sublist message plainText"
    by (simp only: sublist_appendI)
  have "plainText =
          (utf16 ''New SMS Received'' @ [0x0A] @ utf16 ''From: '' @ fromPhone @ [0x0A]
           @ utf16 ''Received at: '')
          @ friendlyDate @ ([0x0A] @ utf16 ''Message: '' @ message)"
    unfolding h by simp
  then show "sublist friendlyDate plainText"
    by (simp only: sublist_appendI)
qed

lemma build_with_message:
  assumes "to_string text = Inr message"
  shows "\<exists>html. buildEmailHtml fromPhone friendlyDate text mediaHtml = Inr html"
    and "\<exists>plainText. buildEmailText fromPhone friendlyDate text = Inr plainText"
  using assms by (simp_all add: buildEmailHtml_def buildEmailText_def)

text \<open>
  Every email the handler sends for an inbound message is built from the sender shown and
  from \<open>messagePayload.text || "(No text)"\<close>.
\<close>

lemma handle_message_trace:
  "snd (handle_message rt env net data messagePayload) = []
   \<or> (\<exists>toPhone route.
         snd (handle_message rt env net data messagePayload) =
           snd (dispatch rt env net data messagePayload (getFromPhone messagePayload)
                  (getFromPhoneForReply messagePayload)
                  (js_or (read_prop messagePayload (utf16 ''text'')) (JStr (utf16 ''(No text)'')))
                  toPhone route))"
  by (auto simp: handle_message_def Let_def split: sum.splits option.splits)

lemma fetch_handler_mail:
  assumes "JSON_parse rt (req_body request) = Some payload"
    and "data = read_prop payload (utf16 ''data'')"
    and "read_prop data (utf16 ''event_type'') = JStr (utf16 ''message.received'')"
    and "messagePayload = read_prop data (utf16 ''payload'')"
    and "read_prop messagePayload (utf16 ''direction'') = JStr (utf16 ''inbound'')"
    and "MailgunPost url authorization m \<in> set (snd (fetch_handler rt env net request))"
  shows "\<exists>friendlyDate mediaHtml.
           buildEmailHtml (getFromPhone messagePayload) friendlyDate
             (js_or (read_prop messagePayload (utf16 ''text'')) (JStr (utf16 ''(No text)'')))
             mediaHtml = Inr (mg_html m)
           \<and> buildEmailText (getFromPhone messagePayload) friendlyDate
               (js_or (read_prop messagePayload (utf16 ''text'')) (JStr (utf16 ''(No text)'')))
               = Inr (mg_text m)"
proof -
  have t: "try_block rt env net request = handle_message rt env net data messagePayload"
    unfolding assms(2,4) using assms(1,3,5) unfolding assms(2,4) by (rule try_block_inbound)
  have p: "req_method request = utf16 ''POST''"
    using assms(6) by (auto simp: fetch_handler_def split: if_splits)
  have "snd (fetch_handler rt env net request) = snd (handle_message rt env net data messagePayload)"
    using p t by (simp add: fetch_handler_def snd_catch)
  then have "MailgunPost url authorization m
               \<in> set (snd (handle_message rt env net data messagePayload))"
    using assms(6) by simp
  then obtain toPhone route
    where "MailgunPost url authorization m
             \<in> set (snd (dispatch rt env net data messagePayload (getFromPhone messagePayload)
                  (getFromPhoneForReply messagePayload)
                  (js_or (read_prop messagePayload (utf16 ''text'')) (JStr (utf16 ''(No text)'')))
                  toPhone route))"
    using handle_message_trace [of rt env net data messagePayload] by auto
  then show ?thesis
    by (rule dispatch_mail)
qed

section \<open>The concrete inputs, evaluated\<close>

lemma post_method: "req_method (post b) = utf16 ''POST''"
  by (simp add: post_def)

lemma sms_parsed: "JSON_parse ex_rt (req_body (post sms_text)) = Some sms_json"
  by code_simp

lemma sms_data_read: "sms_data = read_prop sms_json (utf16 ''data'')"
  by (simp add: sms_json_def)

lemma sms_event_type: "read_prop sms_data (utf16 ''event_type'') = JStr (utf16 ''message.received'')"
  by code_simp

lemma sms_payload_read: "sms_payload = read_prop sms_data (utf16 ''payload'')"
  by code_simp

lemma sms_direction: "read_prop sms_payload (utf16 ''direction'') = JStr (utf16 ''inbound'')"
  by code_simp

lemma sms_to: "getToPhone sms_payload = Inr (Some (utf16 ''+15551230000''))"
  by code_simp

lemma sms_from: "getFromPhoneForReply sms_payload = Some (utf16 ''+15550001111'')"
  by code_simp

lemma reply_route_mode: "read_prop reply_route (utf16 ''mode'') = JStr (utf16 ''auto_reply'')"
  by code_simp

lemma reply_route_text: "read_prop reply_route (utf16 ''reply_text'') = JStr (utf16 ''Thanks!'')"
  by code_simp

lemma kv_reply_route:
  "getRoute ex_rt (ex_env k kv_reply) (Some (utf16 ''+15551230000'')) = reply_route"
  by (simp add: ex_env_def) code_simp

lemma email_route_mode: "read_prop email_route (utf16 ''mode'') = JStr (utf16 ''forward_email'')"
  by code_simp

lemma email_route_email: "read_prop email_route (utf16 ''email'') = JStr (utf16 ''a@b.com'')"
  by code_simp

lemma kv_email_route:
  "getRoute ex_rt (ex_env k kv_email) (Some (utf16 ''+15551230000'')) = email_route"
  by (simp add: ex_env_def) code_simp

lemma ex_key_latin1: "list_all (\<lambda>c. c \<le> 0xFF) (env_text (MAILGUN_API_KEY (ex_env k kv)))"
  by (simp add: ex_env_def env_text_def utf16_def)


lemma mms_parsed: "JSON_parse ex_rt (req_body (post mms_text)) = Some mms_json"
  by code_simp

lemma mms_data_read: "mms_data = read_prop mms_json (utf16 ''data'')"
  by (simp add: mms_json_def)

lemma mms_event_type: "read_prop mms_data (utf16 ''event_type'') = JStr (utf16 ''message.received'')"
  by code_simp

lemma mms_payload_read: "mms_payload = read_prop mms_data (utf16 ''payload'')"
  by code_simp

lemma mms_direction: "read_prop mms_payload (utf16 ''direction'') = JStr (utf16 ''inbound'')"
  by code_simp

lemma mms_to: "getToPhone mms_payload = Inr (Some (utf16 ''+15551230000''))"
  by code_simp

lemma mms_text_empty: "read_prop mms_payload (utf16 ''text'') = JStr []"
  by code_simp

lemma mms_media:
  "js_or (read_prop mms_payload (utf16 ''media'')) (JArr []) =
     JArr [JObj [(utf16 ''content_type'', JStr (utf16 ''image/png'')),
                 (utf16 ''url'', JStr (utf16 ''https://m.example/a.png''))],
           JObj [(utf16 ''content_type'', JStr (utf16 ''image/png'')),
                 (utf16 ''url'', JStr (utf16 ''https://m.example/b.png''))]]"
  by code_simp


lemma mms_occurred_at:
  "to_primitive (read_prop mms_data (utf16 ''occurred_at'')) = Inr (JStr (utf16 ''2026-01-02T21:04:05Z''))"
  by code_simp








section \<open>Claims about the event filter and the route lookup\<close>

text \<open>
  C6: a POST whose body is valid JSON and carries an event (\<open>data\<close> is there) of a type
  other than \<open>message.received\<close>, or with a payload of a direction other than
  \<open>inbound\<close>, is answered with status 200 and makes no outbound call. The event type
  and the direction may also be missing. An event of type \<open>message.received\<close> with no
  payload at all has no direction to read: the read raises and the answer is 500.
\<close>

theorem C6_other_events_ignored:
  assumes "req_method request = utf16 ''POST''"
    and "JSON_parse rt (req_body request) = Some payload"
    and "data = read_prop payload (utf16 ''data'')"
    and "\<not> nullish data"
    and "read_prop data (utf16 ''event_type'') \<noteq> JStr (utf16 ''message.received'')
         \<or> (\<not> nullish (read_prop data (utf16 ''payload''))
            \<and> read_prop (read_prop data (utf16 ''payload'')) (utf16 ''direction'')
                 \<noteq> JStr (utf16 ''inbound''))"
  shows "res_status (fst (fetch_handler rt env net request)) = 200
         \<and> snd (fetch_handler rt env net request) = []"
proof -
  have p: "\<not> nullish payload"
    using assms(3,4) by (cases payload) auto
  have "try_block rt env net request = (Inr okResponse, [])"
    using assms(2,4,5) p unfolding assms(3)
    by (auto simp: try_block_def not_nullish_get_prop)
  then have "fetch_handler rt env net request = (okResponse, [])"
    using assms(1) by (simp add: fetch_handler_def)
  then show ?thesis
    by (simp add: okResponse_def)
qed

theorem C6_other_events_ignored_witness:
  "JSON_parse ex_rt (req_body (post status_text)) = Some status_json
   \<and> status_data = read_prop status_json (utf16 ''data'')
   \<and> \<not> nullish status_data
   \<and> read_prop status_data (utf16 ''event_type'') \<noteq> JStr (utf16 ''message.received'')
   \<and> res_status (fst (fetch_handler ex_rt (ex_env None kv_reply) net_ok (post status_text))) = 200
   \<and> snd (fetch_handler ex_rt (ex_env None kv_reply) net_ok (post status_text)) = []"
proof -
  have h2: "JSON_parse ex_rt (req_body (post status_text)) = Some status_json"
    by code_simp
  have h3: "status_data = read_prop status_json (utf16 ''data'')"
    by (simp add: status_json_def)
  have h4: "\<not> nullish status_data"
    by (simp add: status_data_def)
  have h5: "read_prop status_data (utf16 ''event_type'') \<noteq> JStr (utf16 ''message.received'')"
    by code_simp
  show ?thesis
    using h2 h3 h4 h5 C6_other_events_ignored [OF post_method h2 h3 h4 disjI1, OF h5]
    by blast
qed

text \<open>
  C7: for an inbound \<open>message.received\<close> event with a valid destination number, when
  the store has nothing under \<open>route:<destination>\<close> or holds a text there that does
  not parse as JSON, \<open>getRoute\<close> returns \<open>null\<close>, the handler answers 200 and no
  outbound call is made.
\<close>

theorem C7_no_route_no_action:
  assumes "req_method request = utf16 ''POST''"
    and "JSON_parse rt (req_body request) = Some payload"
    and "data = read_prop payload (utf16 ''data'')"
    and "read_prop data (utf16 ''event_type'') = JStr (utf16 ''message.received'')"
    and "messagePayload = read_prop data (utf16 ''payload'')"
    and "read_prop messagePayload (utf16 ''direction'') = JStr (utf16 ''inbound'')"
    and "getToPhone messagePayload = Inr (Some dest)"
    and "NUMBER_TO_EMAIL env (ROUTE_KEY_PREFIX @ dest) = None
         \<or> (\<exists>raw. NUMBER_TO_EMAIL env (ROUTE_KEY_PREFIX @ dest) = Some raw
                  \<and> JSON_parse rt raw = None)"
  shows "getRoute rt env (Some dest) = JNull
         \<and> res_status (fst (fetch_handler rt env net request)) = 200
         \<and> snd (fetch_handler rt env net request) = []"
proof -
  have r: "getRoute rt env (Some dest) = JNull"
    using assms(8) by (auto simp: getRoute_def)
  have "try_block rt env net request = handle_message rt env net data messagePayload"
    unfolding assms(3,5) using assms(2,4,6) unfolding assms(3,5) by (rule try_block_inbound)
  moreover have "handle_message rt env net data messagePayload = (Inr okResponse, [])"
    using assms(7) r getToPhone_nonempty [OF assms(7)]
    by (simp add: handle_message_def Let_def)
  ultimately have "fetch_handler rt env net request = (okResponse, [])"
    using assms(1) by (simp add: fetch_handler_def)
  then show ?thesis
    using r by (simp add: okResponse_def)
qed

theorem C7_no_route_no_action_witness:
  "JSON_parse ex_rt (req_body (post sms_text)) = Some sms_json
   \<and> sms_data = read_prop sms_json (utf16 ''data'')
   \<and> read_prop sms_data (utf16 ''event_type'') = JStr (utf16 ''message.received'')
   \<and> sms_payload = read_prop sms_data (utf16 ''payload'')
   \<and> read_prop sms_payload (utf16 ''direction'') = JStr (utf16 ''inbound'')
   \<and> getToPhone sms_payload = Inr (Some (utf16 ''+15551230000''))
   \<and> NUMBER_TO_EMAIL (ex_env None kv_broken) (ROUTE_KEY_PREFIX @ utf16 ''+15551230000'')
        = Some (utf16 ''{mode:'')
   \<and> JSON_parse ex_rt (utf16 ''{mode:'') = None
   \<and> getRoute ex_rt (ex_env None kv_broken) (Some (utf16 ''+15551230000'')) = JNull
   \<and> res_status (fst (fetch_handler ex_rt (ex_env None kv_broken) net_ok (post sms_text))) = 200
   \<and> snd (fetch_handler ex_rt (ex_env None kv_broken) net_ok (post sms_text)) = []"
proof -
  have k: "NUMBER_TO_EMAIL (ex_env None kv_broken) (ROUTE_KEY_PREFIX @ utf16 ''+15551230000'')
             = Some (utf16 ''{mode:'')"
    by code_simp
  have p: "JSON_parse ex_rt (utf16 ''{mode:'') = None"
    by code_simp
  have h8: "NUMBER_TO_EMAIL (ex_env None kv_broken) (ROUTE_KEY_PREFIX @ utf16 ''+15551230000'') = None
            \<or> (\<exists>raw. NUMBER_TO_EMAIL (ex_env None kv_broken)
                        (ROUTE_KEY_PREFIX @ utf16 ''+15551230000'') = Some raw
                     \<and> JSON_parse ex_rt raw = None)"
    using k p by blast
  show ?thesis
    using sms_parsed sms_data_read sms_event_type sms_payload_read sms_direction sms_to k p
      C7_no_route_no_action [OF post_method sms_parsed sms_data_read sms_event_type
        sms_payload_read sms_direction sms_to h8]
    by blast
qed

section \<open>Claims about the sender shown in the email\<close>

text \<open>
  C8, as the specification states it: whenever \<open>from.phone_number\<close> is absent or
  malformed, the sender shown in the email is the literal \<open>(Unknown)\<close>.
  \<open>getFromPhone\<close> tests only that the value is a non-empty string: the sender
  \<open>5551234\<close>, which is not a well-formed number (strict normalization rejects it), is
  shown as it is.
\<close>

theorem C8_malformed_string_counterexample:
  "normalizePhoneNumber (JStr (utf16 ''5551234'')) = None
   \<and> getFromPhoneForReply
         (JObj [(utf16 ''from'', JObj [(utf16 ''phone_number'', JStr (utf16 ''5551234''))])]) = None
   \<and> getFromPhone
         (JObj [(utf16 ''from'', JObj [(utf16 ''phone_number'', JStr (utf16 ''5551234''))])])
       = utf16 ''5551234''
   \<and> utf16 ''5551234'' \<noteq> utf16 ''(Unknown)''"
  by code_simp

text \<open>
  C8, amended: extracting the sender for display never fails (\<open>getFromPhone\<close> reads
  through optional chaining and returns a string for every payload, \<open>null\<close> and
  \<open>undefined\<close> included), and whenever \<open>from.phone_number\<close> is absent, not a string
  or the empty string, the sender shown is the literal \<open>(Unknown)\<close>.
\<close>

theorem C8_display_sender_placeholder:
  assumes "\<not> (\<exists>s. s \<noteq> [] \<and>
             opt_prop (opt_prop messagePayload (utf16 ''from'')) (utf16 ''phone_number'') = JStr s)"
  shows "getFromPhone messagePayload = utf16 ''(Unknown)''"
  using assms by (auto simp: getFromPhone_def split: json.splits)

theorem C8_display_sender_placeholder_witness:
  "\<not> (\<exists>s. s \<noteq> [] \<and>
        opt_prop (opt_prop (JObj [(utf16 ''from'', JObj [(utf16 ''phone_number'', JNum (utf16 ''5551234''))])])
                   (utf16 ''from'')) (utf16 ''phone_number'') = JStr s)
   \<and> getFromPhone (JObj [(utf16 ''from'', JObj [(utf16 ''phone_number'', JNum (utf16 ''5551234''))])])
       = utf16 ''(Unknown)''"
proof -
  have v: "opt_prop (opt_prop (JObj [(utf16 ''from'', JObj [(utf16 ''phone_number'', JNum (utf16 ''5551234''))])])
                   (utf16 ''from'')) (utf16 ''phone_number'') = JNum (utf16 ''5551234'')"
    by code_simp
  have h: "\<not> (\<exists>s. s \<noteq> [] \<and>
        opt_prop (opt_prop (JObj [(utf16 ''from'', JObj [(utf16 ''phone_number'', JNum (utf16 ''5551234''))])])
                   (utf16 ''from'')) (utf16 ''phone_number'') = JStr s)"
    unfolding v by simp
  show ?thesis
    using h C8_display_sender_placeholder [OF h] by blast
qed

section \<open>Claims about the automatic reply\<close>

text \<open>
  C1, as the specification states it: an inbound event whose route is
  \<open>{mode: "auto_reply", reply_text: "Thanks!"}\<close> and whose sender number is valid
  leads to exactly one call to the reply endpoint. \<open>sendTelnyxReply\<close> returns before
  the call when \<open>TELNYX_API_KEY\<close> is not set: with such an environment the handler
  answers 200 and has made no call.
\<close>

theorem C1_missing_key_counterexample:
  "JSON_parse ex_rt (req_body (post sms_text)) = Some sms_json
   \<and> getToPhone sms_payload = Inr (Some (utf16 ''+15551230000''))
   \<and> getFromPhoneForReply sms_payload = Some (utf16 ''+15550001111'')
   \<and> getRoute ex_rt (ex_env None kv_reply) (Some (utf16 ''+15551230000'')) = reply_route
   \<and> fetch_handler ex_rt (ex_env None kv_reply) net_ok (post sms_text) = (okResponse, [])"
proof -
  have "fetch_handler ex_rt (ex_env None kv_reply) net_ok (post sms_text) = (okResponse, [])"
    by code_simp
  then show ?thesis
    using sms_parsed sms_to sms_from kv_reply_route [of None] by blast
qed

text \<open>
  C1, amended: for an inbound \<open>message.received\<close> event whose route has the mode
  \<open>auto_reply\<close>: when \<open>reply_text\<close> is non-empty, the sender number passes strict
  normalization and \<open>TELNYX_API_KEY\<close> is set and non-empty, the handler makes exactly
  one outbound call, to the reply endpoint, with the body
  \<open>{from: destination, to: sender, text: reply_text}\<close>, both numbers in canonical form;
  when \<open>reply_text\<close> is missing or empty, or the sender number fails normalization, it
  answers 200 and makes no call.
\<close>

theorem C1_auto_reply_one_call:
  assumes "req_method request = utf16 ''POST''"
    and "JSON_parse rt (req_body request) = Some payload"
    and "data = read_prop payload (utf16 ''data'')"
    and "read_prop data (utf16 ''event_type'') = JStr (utf16 ''message.received'')"
    and "messagePayload = read_prop data (utf16 ''payload'')"
    and "read_prop messagePayload (utf16 ''direction'') = JStr (utf16 ''inbound'')"
    and "getToPhone messagePayload = Inr (Some dest)"
    and "getRoute rt env (Some dest) = route"
    and "read_prop route (utf16 ''mode'') = JStr (utf16 ''auto_reply'')"
    and "replyText = read_prop route (utf16 ''reply_text'')"
  shows "(truthy replyText \<and> getFromPhoneForReply messagePayload = Some sender
            \<and> \<not> absent_or_empty (TELNYX_API_KEY env)
          \<longrightarrow> snd (fetch_handler rt env net request) =
                [TelnyxPost (utf16 ''Bearer '' @ env_text (TELNYX_API_KEY env))
                   \<lparr>tx_from = dest, tx_to = sender, tx_text = replyText\<rparr>])
         \<and> (\<not> truthy replyText \<or> getFromPhoneForReply messagePayload = None
          \<longrightarrow> res_status (fst (fetch_handler rt env net request)) = 200
              \<and> snd (fetch_handler rt env net request) = [])"
proof -
  have t: "truthy route"
    using assms(9) by (rule read_prop_JStr_truthy)
  note h = fetch_handler_dispatch [OF assms(1-8) t]
  have one: "snd (fetch_handler rt env net request) =
               [TelnyxPost (utf16 ''Bearer '' @ env_text (TELNYX_API_KEY env))
                  \<lparr>tx_from = dest, tx_to = sender, tx_text = replyText\<rparr>]"
    if "truthy replyText" and f: "getFromPhoneForReply messagePayload = Some sender"
      and k: "\<not> absent_or_empty (TELNYX_API_KEY env)"
  proof -
    have s: "sender \<noteq> []"
      using f by (rule getFromPhoneForReply_nonempty)
    have "snd (fetch_handler rt env net request) =
            snd (sendTelnyxReply env net dest sender replyText [])"
      unfolding h using that s assms(9,10)
      by (simp add: dispatch_def split: prod.splits sum.splits)
    then show ?thesis
      using sendTelnyxReply_calls [OF k, of net dest sender replyText "[]"] by simp
  qed
  have none: "fetch_handler rt env net request = (okResponse, [])"
    if "\<not> truthy replyText \<or> getFromPhoneForReply messagePayload = None"
    unfolding h using that assms(9,10)
    by (auto simp: dispatch_def)
  show ?thesis
    using one none by (auto simp: okResponse_def)
qed

theorem C1_auto_reply_one_call_witness:
  "JSON_parse ex_rt (req_body (post sms_text)) = Some sms_json
   \<and> sms_data = read_prop sms_json (utf16 ''data'')
   \<and> read_prop sms_data (utf16 ''event_type'') = JStr (utf16 ''message.received'')
   \<and> sms_payload = read_prop sms_data (utf16 ''payload'')
   \<and> read_prop sms_payload (utf16 ''direction'') = JStr (utf16 ''inbound'')
   \<and> getToPhone sms_payload = Inr (Some (utf16 ''+15551230000''))
   \<and> getRoute ex_rt (ex_env (Some (utf16 ''KEY'')) kv_reply) (Some (utf16 ''+15551230000''))
        = reply_route
   \<and> read_prop reply_route (utf16 ''mode'') = JStr (utf16 ''auto_reply'')
   \<and> read_prop reply_route (utf16 ''reply_text'') = JStr (utf16 ''Thanks!'')
   \<and> getFromPhoneForReply sms_payload = Some (utf16 ''+15550001111'')
   \<and> snd (fetch_handler ex_rt (ex_env (Some (utf16 ''KEY'')) kv_reply) net_ok (post sms_text)) =
        [TelnyxPost (utf16 ''Bearer KEY'')
           \<lparr>tx_from = utf16 ''+15551230000'', tx_to = utf16 ''+15550001111'',
            tx_text = JStr (utf16 ''Thanks!'')\<rparr>]"
proof -
  have r: "getRoute ex_rt (ex_env (Some (utf16 ''KEY'')) kv_reply) (Some (utf16 ''+15551230000''))
             = reply_route"
    by (rule kv_reply_route)
  have t: "truthy (read_prop reply_route (utf16 ''reply_text''))"
    by code_simp
  have k: "\<not> absent_or_empty (TELNYX_API_KEY (ex_env (Some (utf16 ''KEY'')) kv_reply))"
    by code_simp
  have b: "utf16 ''Bearer '' @ env_text (TELNYX_API_KEY (ex_env (Some (utf16 ''KEY'')) kv_reply))
             = utf16 ''Bearer KEY''"
    by code_simp
  have "snd (fetch_handler ex_rt (ex_env (Some (utf16 ''KEY'')) kv_reply) net_ok (post sms_text)) =
          [TelnyxPost (utf16 ''Bearer KEY'')
             \<lparr>tx_from = utf16 ''+15551230000'', tx_to = utf16 ''+15550001111'',
              tx_text = JStr (utf16 ''Thanks!'')\<rparr>]"
    using C1_auto_reply_one_call [where sender = "utf16 ''+15550001111''" and net = net_ok,
        OF post_method sms_parsed sms_data_read sms_event_type
        sms_payload_read sms_direction sms_to r reply_route_mode refl] t sms_from k
    unfolding b reply_route_text by blast
  then show ?thesis
    using sms_parsed sms_data_read sms_event_type sms_payload_read sms_direction sms_to
      r reply_route_mode reply_route_text sms_from
    by blast
qed

text \<open>
  C9: for an \<open>auto_reply\<close> route with a non-empty \<open>reply_text\<close> and a valid sender
  number, when \<open>TELNYX_API_KEY\<close> is not set or empty the handler makes no outbound
  call and still answers 200.
\<close>

theorem C9_missing_key_no_call:
  assumes "req_method request = utf16 ''POST''"
    and "JSON_parse rt (req_body request) = Some payload"
    and "data = read_prop payload (utf16 ''data'')"
    and "read_prop data (utf16 ''event_type'') = JStr (utf16 ''message.received'')"
    and "messagePayload = read_prop data (utf16 ''payload'')"
    and "read_prop messagePayload (utf16 ''direction'') = JStr (utf16 ''inbound'')"
    and "getToPhone messagePayload = Inr (Some dest)"
    and "getRoute rt env (Some dest) = route"
    and "read_prop route (utf16 ''mode'') = JStr (utf16 ''auto_reply'')"
    and "truthy (read_prop route (utf16 ''reply_text''))"
    and "getFromPhoneForReply messagePayload = Some sender"
    and "absent_or_empty (TELNYX_API_KEY env)"
  shows "res_status (fst (fetch_handler rt env net request)) = 200
         \<and> snd (fetch_handler rt env net request) = []"
proof -
  have t: "truthy route"
    using assms(9) by (rule read_prop_JStr_truthy)
  have s: "sender \<noteq> []"
    using assms(11) by (rule getFromPhoneForReply_nonempty)
  have "fetch_handler rt env net request = (okResponse, [])"
    unfolding fetch_handler_dispatch [OF assms(1-8) t]
    using assms(9-12) s
    by (simp add: dispatch_def sendTelnyxReply_no_key)
  then show ?thesis
    by (simp add: okResponse_def)
qed

theorem C9_missing_key_no_call_witness:
  "JSON_parse ex_rt (req_body (post sms_text)) = Some sms_json
   \<and> sms_data = read_prop sms_json (utf16 ''data'')
   \<and> read_prop sms_data (utf16 ''event_type'') = JStr (utf16 ''message.received'')
   \<and> sms_payload = read_prop sms_data (utf16 ''payload'')
   \<and> read_prop sms_payload (utf16 ''direction'') = JStr (utf16 ''inbound'')
   \<and> getToPhone sms_payload = Inr (Some (utf16 ''+15551230000''))
   \<and> getRoute ex_rt (ex_env (Some []) kv_reply) (Some (utf16 ''+15551230000'')) = reply_route
   \<and> read_prop reply_route (utf16 ''mode'') = JStr (utf16 ''auto_reply'')
   \<and> truthy (read_prop reply_route (utf16 ''reply_text''))
   \<and> getFromPhoneForReply sms_payload = Some (utf16 ''+15550001111'')
   \<and> absent_or_empty (TELNYX_API_KEY (ex_env (Some []) kv_reply))
   \<and> res_status (fst (fetch_handler ex_rt (ex_env (Some []) kv_reply) net_ok (post sms_text))) = 200
   \<and> snd (fetch_handler ex_rt (ex_env (Some []) kv_reply) net_ok (post sms_text)) = []"
proof -
  have h8: "getRoute ex_rt (ex_env (Some []) kv_reply) (Some (utf16 ''+15551230000''))
              = reply_route"
    by (rule kv_reply_route)
  have h10: "truthy (read_prop reply_route (utf16 ''reply_text''))"
    by code_simp
  have h12: "absent_or_empty (TELNYX_API_KEY (ex_env (Some []) kv_reply))"
    by code_simp
  show ?thesis
    using sms_parsed sms_data_read sms_event_type sms_payload_read sms_direction sms_to
      h8 reply_route_mode h10 sms_from h12
      C9_missing_key_no_call [where net = net_ok,
        OF post_method sms_parsed sms_data_read sms_event_type
        sms_payload_read sms_direction sms_to h8 reply_route_mode h10 sms_from h12]
    by blast
qed

section \<open>Claims about the forwarded email\<close>




text \<open>
  C10: when the \<open>text\<close> of the payload is the empty string, the message text in the HTML
  body and in the plain-text body of the email is the literal \<open>(No text)\<close>, exactly as
  when the payload has no \<open>text\<close>: every email the handler sends for such an event
  holds the paragraph \<open><p><strong>Message:</strong> (No text)</p>\<close> in its HTML body
  and ends its plain-text body with \<open>Message: (No text)\<close>; and the email is sent, after
  the downloads of the attachments, whenever the destination has a \<open>forward_email\<close>
  route with a non-empty \<open>email\<close>, the timestamp can be converted to a primitive, the
  media list is missing or an array of attachments with content types that are strings or
  missing and urls that can be converted to strings, and the Mailgun API key holds no
  character above U+00FF.
\<close>

theorem C10_empty_text_placeholder:
  assumes "JSON_parse rt (req_body request) = Some payload"
    and "data = read_prop payload (utf16 ''data'')"
    and "read_prop data (utf16 ''event_type'') = JStr (utf16 ''message.received'')"
    and "messagePayload = read_prop data (utf16 ''payload'')"
    and "read_prop messagePayload (utf16 ''direction'') = JStr (utf16 ''inbound'')"
    and "read_prop messagePayload (utf16 ''text'') = JStr []
         \<or> read_prop messagePayload (utf16 ''text'') = JUndefined"
  shows "(\<forall>url authorization m.
            MailgunPost url authorization m \<in> set (snd (fetch_handler rt env net request))
            \<longrightarrow> sublist (utf16 ''<p><strong>Message:</strong> (No text)</p>'') (mg_html m)
                \<and> sublist (utf16 ''(No text)'') (mg_html m)
                \<and> suffix (utf16 ''Message: (No text)'') (mg_text m)
                \<and> sublist (utf16 ''(No text)'') (mg_text m))
         \<and> (req_method request = utf16 ''POST''
             \<and> getToPhone messagePayload = Inr (Some dest)
             \<and> getRoute rt env (Some dest) = route
             \<and> read_prop route (utf16 ''mode'') = JStr (utf16 ''forward_email'')
             \<and> read_prop route (utf16 ''email'') = JStr address \<and> address \<noteq> []
             \<and> to_primitive (read_prop data (utf16 ''occurred_at'')) = Inr occurredAt
             \<and> js_or (read_prop messagePayload (utf16 ''media'')) (JArr []) = JArr items
             \<and> (\<forall>item\<in>set items.
                   (nullish (opt_prop item (utf16 ''content_type''))
                    \<or> (\<exists>s. opt_prop item (utf16 ''content_type'') = JStr s))
                   \<and> (\<exists>u. to_string (read_prop item (utf16 ''url'')) = Inr u))
             \<and> list_all (\<lambda>c. c \<le> 0xFF) (env_text (MAILGUN_API_KEY env))
             \<longrightarrow> (\<exists>downloads authorization m.
                    snd (fetch_handler rt env net request) =
                      downloads @
                      [MailgunPost
                         (utf16 ''https://api.mailgun.net/v3/'' @ env_text (MAILGUN_DOMAIN env)
                            @ utf16 ''/messages'')
                         authorization m]
                    \<and> (\<forall>c\<in>set downloads. \<exists>u. c = MediaFetch u)
                    \<and> sublist (utf16 ''<p><strong>Message:</strong> (No text)</p>'') (mg_html m)
                    \<and> sublist (utf16 ''(No text)'') (mg_html m)
                    \<and> suffix (utf16 ''Message: (No text)'') (mg_text m)
                    \<and> sublist (utf16 ''(No text)'') (mg_text m)))"
proof -
  have x: "js_or (read_prop messagePayload (utf16 ''text'')) (JStr (utf16 ''(No text)''))
             = JStr (utf16 ''(No text)'')"
    using assms(6) by (auto simp: js_or_def)
  have s: "to_string (JStr (utf16 ''(No text)'')) = Inr (utf16 ''(No text)'')"
    by simp
  have l1: "utf16 ''<p><strong>Message:</strong> '' @ utf16 ''(No text)'' @ utf16 ''</p>''
              = utf16 ''<p><strong>Message:</strong> (No text)</p>''"
    by (simp add: utf16_def)
  have l2: "utf16 ''Message: '' @ utf16 ''(No text)'' = utf16 ''Message: (No text)''"
    by (simp add: utf16_def)
  have holds: "sublist (utf16 ''<p><strong>Message:</strong> (No text)</p>'') (mg_html m)
                \<and> sublist (utf16 ''(No text)'') (mg_html m)
                \<and> suffix (utf16 ''Message: (No text)'') (mg_text m)
                \<and> sublist (utf16 ''(No text)'') (mg_text m)"
    if sent_mail: "MailgunPost url authorization m \<in> set (snd (fetch_handler rt env net request))"
    for url authorization m
  proof -
    obtain friendlyDate mediaHtml
      where bh: "buildEmailHtml (getFromPhone messagePayload) friendlyDate
                   (JStr (utf16 ''(No text)'')) mediaHtml = Inr (mg_html m)"
        and bt: "buildEmailText (getFromPhone messagePayload) friendlyDate
                   (JStr (utf16 ''(No text)'')) = Inr (mg_text m)"
      using fetch_handler_mail [OF assms(1-5) sent_mail] unfolding x by blast
    show ?thesis
      using buildEmailHtml_contains(1,2) [OF bh s] buildEmailText_contains(1,2) [OF bt s]
      unfolding l1 l2 by blast
  qed
  have sent: "\<exists>downloads authorization m.
                    snd (fetch_handler rt env net request) =
                      downloads @
                      [MailgunPost
                         (utf16 ''https://api.mailgun.net/v3/'' @ env_text (MAILGUN_DOMAIN env)
                            @ utf16 ''/messages'')
                         authorization m]
                    \<and> (\<forall>c\<in>set downloads. \<exists>u. c = MediaFetch u)
                    \<and> sublist (utf16 ''<p><strong>Message:</strong> (No text)</p>'') (mg_html m)
                    \<and> sublist (utf16 ''(No text)'') (mg_html m)
                    \<and> suffix (utf16 ''Message: (No text)'') (mg_text m)
                    \<and> sublist (utf16 ''(No text)'') (mg_text m)"
    if pm: "req_method request = utf16 ''POST''"
      and g: "getToPhone messagePayload = Inr (Some dest)"
      and r: "getRoute rt env (Some dest) = route"
      and md: "read_prop route (utf16 ''mode'') = JStr (utf16 ''forward_email'')"
      and e: "read_prop route (utf16 ''email'') = JStr address" and ne: "address \<noteq> []"
      and o: "to_primitive (read_prop data (utf16 ''occurred_at'')) = Inr occurredAt"
      and i: "js_or (read_prop messagePayload (utf16 ''media'')) (JArr []) = JArr items"
      and c: "\<forall>item\<in>set items.
                   (nullish (opt_prop item (utf16 ''content_type''))
                    \<or> (\<exists>s. opt_prop item (utf16 ''content_type'') = JStr s))
                   \<and> (\<exists>u. to_string (read_prop item (utf16 ''url'')) = Inr u)"
      and k: "list_all (\<lambda>c. c \<le> 0xFF) (env_text (MAILGUN_API_KEY env))"
  proof -
    have t: "truthy route"
      using md by (rule read_prop_JStr_truthy)
    have n: "\<not> nullish messagePayload"
      using assms(5) by (rule read_prop_JStr_not_nullish)
    have a: "read_prop route (utf16 ''mode'') \<noteq> JStr (utf16 ''auto_reply'')"
      using md by (simp add: utf16_def)
    note h = fetch_handler_dispatch [OF pm assms(1-5) g r t]
    obtain mediaHtml downloads
      where p: "processMedia net messagePayload [] = (Inr mediaHtml, downloads)"
        and d: "\<forall>c\<in>set downloads. \<exists>u. c = MediaFetch u"
      using processMedia_returns [OF n i c] by blast
    obtain credentials
      where b: "btoa (utf16 ''api:'' @ env_text (MAILGUN_API_KEY env)) = Inr credentials"
      using btoa_latin1 [OF k] by blast
    obtain html where bh: "buildEmailHtml (getFromPhone messagePayload)
                             (toLocaleString rt occurredAt) (JStr (utf16 ''(No text)''))
                             mediaHtml = Inr html"
      using build_with_message(1) [OF s] by blast
    obtain plainText where bt: "buildEmailText (getFromPhone messagePayload)
                             (toLocaleString rt occurredAt) (JStr (utf16 ''(No text)''))
                             = Inr plainText"
      using build_with_message(2) [OF s] by blast
    have e': "truthy (read_prop route (utf16 ''email''))"
      using e ne by simp
    have cv: "to_string (read_prop route (utf16 ''email'')) = Inr address"
      using e by simp
    have "snd (fetch_handler rt env net request) =
            snd (sendMailgunEmail env net (read_prop route (utf16 ''email''))
                   (getFromPhone messagePayload) (toLocaleString rt occurredAt)
                   (JStr (utf16 ''(No text)'')) mediaHtml downloads)"
      unfolding h snd_catch x
      using a md e' o p by (simp add: dispatch_def Let_def snd_then_ok)
    then have "snd (fetch_handler rt env net request) =
            downloads @ [MailgunPost
                   (utf16 ''https://api.mailgun.net/v3/'' @ env_text (MAILGUN_DOMAIN env)
                      @ utf16 ''/messages'')
                   (utf16 ''Basic '' @ credentials)
                   \<lparr>mg_from = utf16 ''SMS Alerts <'' @ env_text (FROM_EMAIL env) @ utf16 ''>'',
                    mg_to = address,
                    mg_subject = utf16 ''New SMS from '' @ getFromPhone messagePayload,
                    mg_html = html,
                    mg_text = plainText\<rparr>]"
      using sendMailgunEmail_calls [OF e' cv bh bt b] by simp
    then show ?thesis
      using d buildEmailHtml_contains(1,2) [OF bh s] buildEmailText_contains(1,2) [OF bt s]
      unfolding l1 l2
      by (intro exI conjI) (assumption, assumption, simp_all)
  qed
  show ?thesis
    using holds sent by blast
qed

theorem C10_empty_text_placeholder_witness:
  "JSON_parse ex_rt (req_body (post mms_text)) = Some mms_json
   \<and> mms_data = read_prop mms_json (utf16 ''data'')
   \<and> read_prop mms_data (utf16 ''event_type'') = JStr (utf16 ''message.received'')
   \<and> mms_payload = read_prop mms_data (utf16 ''payload'')
   \<and> read_prop mms_payload (utf16 ''direction'') = JStr (utf16 ''inbound'')
   \<and> read_prop mms_payload (utf16 ''text'') = JStr []
   \<and> getToPhone mms_payload = Inr (Some (utf16 ''+15551230000''))
   \<and> getRoute ex_rt (ex_env None kv_email) (Some (utf16 ''+15551230000'')) = email_route
   \<and> read_prop email_route (utf16 ''mode'') = JStr (utf16 ''forward_email'')
   \<and> read_prop email_route (utf16 ''email'') = JStr (utf16 ''a@b.com'')
   \<and> to_primitive (read_prop mms_data (utf16 ''occurred_at''))
        = Inr (JStr (utf16 ''2026-01-02T21:04:05Z''))
   \<and> list_all (\<lambda>c. c \<le> 0xFF) (env_text (MAILGUN_API_KEY (ex_env None kv_email)))
   \<and> (\<exists>downloads authorization m.
         snd (fetch_handler ex_rt (ex_env None kv_email) net_ok (post mms_text)) =
           downloads @
           [MailgunPost
              (utf16 ''https://api.mailgun.net/v3/''
                 @ env_text (MAILGUN_DOMAIN (ex_env None kv_email)) @ utf16 ''/messages'')
              authorization m]
         \<and> (\<forall>c\<in>set downloads. \<exists>u. c = MediaFetch u)
         \<and> sublist (utf16 ''<p><strong>Message:</strong> (No text)</p>'') (mg_html m)
         \<and> sublist (utf16 ''(No text)'') (mg_html m)
         \<and> suffix (utf16 ''Message: (No text)'') (mg_text m)
         \<and> sublist (utf16 ''(No text)'') (mg_text m))"
proof -
  have r: "getRoute ex_rt (ex_env None kv_email) (Some (utf16 ''+15551230000'')) = email_route"
    by (rule kv_email_route)
  have ne: "utf16 ''a@b.com'' \<noteq> []"
    by (simp add: utf16_def)
  have c: "\<forall>item\<in>set [JObj [(utf16 ''content_type'', JStr (utf16 ''image/png'')),
                              (utf16 ''url'', JStr (utf16 ''https://m.example/a.png''))],
                        JObj [(utf16 ''content_type'', JStr (utf16 ''image/png'')),
                              (utf16 ''url'', JStr (utf16 ''https://m.example/b.png''))]].
             (nullish (opt_prop item (utf16 ''content_type''))
              \<or> (\<exists>s. opt_prop item (utf16 ''content_type'') = JStr s))
             \<and> (\<exists>u. to_string (read_prop item (utf16 ''url'')) = Inr u)"
    by (simp add: opt_prop_def utf16_def)
  have k: "list_all (\<lambda>c. c \<le> 0xFF) (env_text (MAILGUN_API_KEY (ex_env None kv_email)))"
    by (rule ex_key_latin1)
  have "\<exists>downloads authorization m.
         snd (fetch_handler ex_rt (ex_env None kv_email) net_ok (post mms_text)) =
           downloads @
           [MailgunPost
              (utf16 ''https://api.mailgun.net/v3/''
                 @ env_text (MAILGUN_DOMAIN (ex_env None kv_email)) @ utf16 ''/messages'')
              authorization m]
         \<and> (\<forall>c\<in>set downloads. \<exists>u. c = MediaFetch u)
         \<and> sublist (utf16 ''<p><strong>Message:</strong> (No text)</p>'') (mg_html m)
         \<and> sublist (utf16 ''(No text)'') (mg_html m)
         \<and> suffix (utf16 ''Message: (No text)'') (mg_text m)
         \<and> sublist (utf16 ''(No text)'') (mg_text m)"
    using C10_empty_text_placeholder [where net = net_ok and dest = "utf16 ''+15551230000''"
          and route = email_route and address = "utf16 ''a@b.com''"
          and occurredAt = "JStr (utf16 ''2026-01-02T21:04:05Z'')"
          and env = "ex_env None kv_email",
        OF mms_parsed mms_data_read mms_event_type mms_payload_read mms_direction disjI1,
        OF mms_text_empty]
      post_method mms_to r email_route_mode email_route_email ne mms_occurred_at mms_media c k
    by blast
  then show ?thesis
    using mms_parsed mms_data_read mms_event_type mms_payload_read mms_direction mms_text_empty
      mms_to r email_route_mode email_route_email mms_occurred_at k
    by simp
qed

section \<open>Claim about attachments that cannot be loaded\<close>

text \<open>
  C3: an image attachment whose download fails gets a "Failed to load" line in place of
  the image, and neither the other attachments nor the email are held up. The code does so
  when \<open>fetch\<close> rejects, in its \<open>catch\<close>; for a response that is not \<open>ok\<close> the
  \<open>if (response.ok)\<close> has no \<open>else\<close>, and the attachment is dropped without a line.
  Here the picture message has two attachments; the download of \<open>a.png\<close> is answered
  with a response that is not \<open>ok\<close>, the download of \<open>b.png\<close> rejects. Both downloads
  are made and the email is sent, with a line for \<open>b.png\<close> and nothing for \<open>a.png\<close>.
\<close>

theorem C3_not_ok_response_adds_nothing:
  "processMedia net_media_down mms_payload [] =
     (Inr (utf16 ''<p><strong>Image:</strong> Failed to load https://m.example/b.png</p>''),
      [MediaFetch (JStr (utf16 ''https://m.example/a.png'')),
       MediaFetch (JStr (utf16 ''https://m.example/b.png''))])
   \<and> fetch_handler ex_rt (ex_env None kv_email) net_media_down (post mms_text) =
       (okResponse,
        [MediaFetch (JStr (utf16 ''https://m.example/a.png'')),
         MediaFetch (JStr (utf16 ''https://m.example/b.png'')),
         MailgunPost (utf16 ''https://api.mailgun.net/v3/mg.example/messages'')
           (utf16 ''Basic YXBpOmtleS0x'')
           \<lparr>mg_from = utf16 ''SMS Alerts <sms@mg.example>'',
            mg_to = utf16 ''a@b.com'',
            mg_subject = utf16 ''New SMS from +15550001111'',
            mg_html =
              utf16 ''<h2>New SMS Received</h2>'' @ [0x0A]
              @ utf16 ''<p><strong>From:</strong> +15550001111</p>'' @ [0x0A]
              @ utf16 ''<p><strong>Received at:</strong> 1/2/2026, 3:04:05 PM CST</p>'' @ [0x0A]
              @ utf16 ''<p><strong>Message:</strong> (No text)</p>'' @ [0x0A]
              @ utf16 ''<p><strong>Image:</strong> Failed to load https://m.example/b.png</p>'',
            mg_text =
              utf16 ''New SMS Received'' @ [0x0A]
              @ utf16 ''From: +15550001111'' @ [0x0A]
              @ utf16 ''Received at: 1/2/2026, 3:04:05 PM CST'' @ [0x0A]
              @ utf16 ''Message: (No text)''\<rparr>])"
  by code_simp

end
